theory Spec2Isabelle
  imports Complex_Main "HOL-Library.Multiset"
begin

section \<open>Conventions of the embedding\<close>

text \<open>
  The theory embeds the logic modules of the fitness assistant: \<^verbatim>\<open>utils/meal_planner.py\<close>,
  \<^verbatim>\<open>utils/workout_generator.py\<close>, \<^verbatim>\<open>utils/ml_models.py\<close>, \<^verbatim>\<open>utils/database.py\<close>,
  \<^verbatim>\<open>utils/auth.py\<close>, \<^verbatim>\<open>utils/ai_coach.py\<close> and the percent-to-goal computation of
  \<^verbatim>\<open>app_dashboard_functions.py\<close>.

  \<^item> A Python \<^verbatim>\<open>str\<close> is a \<^typ>\<open>string\<close>. One \<^typ>\<open>char\<close> stands for one character, so
    \<^const>\<open>length\<close> is Python's \<^verbatim>\<open>len\<close>; the characters covered are the 256 of \<^typ>\<open>char\<close>.
  \<^item> A Python \<^verbatim>\<open>int\<close> is an \<^typ>\<open>int\<close>. A Python \<^verbatim>\<open>float\<close> is a \<^typ>\<open>real\<close>: rounding is
    not modelled. Where numpy arithmetic leaves the finite numbers (a zero divisor, the
    logarithm of a non-positive number) the model says so, see \<open>npfloat\<close> below.
  \<^item> A raised exception is the \<open>Inl\<close> of a sum type.
  \<^item> The clock, the random generator, bcrypt, the sqlite file and the remote chat service
    are inputs of the functions that use them.
\<close>

datatype py_error = KeyError | ValueError

subsection \<open>\<^verbatim>\<open>str.lower\<close> and \<^verbatim>\<open>str.capitalize\<close>\<close>

definition lower_char :: "char \<Rightarrow> char" where
  "lower_char c =
     (case map_of (zip ''ABCDEFGHIJKLMNOPQRSTUVWXYZ'' ''abcdefghijklmnopqrstuvwxyz'') c of
        None \<Rightarrow> c | Some d \<Rightarrow> d)"

definition upper_char :: "char \<Rightarrow> char" where
  "upper_char c =
     (case map_of (zip ''abcdefghijklmnopqrstuvwxyz'' ''ABCDEFGHIJKLMNOPQRSTUVWXYZ'') c of
        None \<Rightarrow> c | Some d \<Rightarrow> d)"

definition lower :: "string \<Rightarrow> string" where
  "lower s = map lower_char s"

fun capitalize :: "string \<Rightarrow> string" where
  "capitalize [] = []"
| "capitalize (c # cs) = upper_char c # lower cs"

subsection \<open>\<^verbatim>\<open>dict.get\<close> on a literal dictionary\<close>

definition dict_get :: "('k \<times> 'v) list \<Rightarrow> 'k \<Rightarrow> 'v \<Rightarrow> 'v" where
  "dict_get d k dflt = (case map_of d k of None \<Rightarrow> dflt | Some v \<Rightarrow> v)"

section \<open>Meal planner (\<^verbatim>\<open>utils/meal_planner.py\<close>)\<close>

record food =
  name :: string
  calories :: int
  protein :: int
  carbs :: int
  fat :: int

definition mk_food :: "string \<Rightarrow> int \<Rightarrow> int \<Rightarrow> int \<Rightarrow> int \<Rightarrow> food" where
  "mk_food n c p cb f = \<lparr>name = n, calories = c, protein = p, carbs = cb, fat = f\<rparr>"

text \<open>The lists of \<^verbatim>\<open>_initialize_food_database\<close>, in table order.\<close>

definition breakfast_vegetarian :: "food list" where
  "breakfast_vegetarian =
    [mk_food ''Poha'' 250 6 45 5,
     mk_food ''Upma'' 220 5 40 4,
     mk_food ''Idli (3) with Sambar'' 180 8 35 2,
     mk_food ''Dosa with Chutney'' 200 6 38 3,
     mk_food ''Paratha (2) with Curd'' 320 10 45 12,
     mk_food ''Oats Porridge'' 180 7 30 4,
     mk_food ''Vegetable Sandwich'' 240 8 35 8]"

definition breakfast_non_vegetarian :: "food list" where
  "breakfast_non_vegetarian =
    [mk_food ''Egg Bhurji with Roti (2)'' 280 18 30 10,
     mk_food ''Omelette (3 eggs) with Toast'' 320 22 25 15,
     mk_food ''Chicken Sandwich'' 300 25 30 10]"

definition breakfast_eggetarian :: "food list" where
  "breakfast_eggetarian =
    [mk_food ''Boiled Eggs (2) with Toast'' 220 16 25 8,
     mk_food ''Egg Dosa'' 250 14 30 8]"

definition lunch_vegetarian :: "food list" where
  "lunch_vegetarian =
    [mk_food ''Dal Rice with Sabzi'' 400 15 70 8,
     mk_food ''Rajma Chawal'' 450 18 75 10,
     mk_food ''Chole Bhature'' 550 16 85 18,
     mk_food ''Paneer Butter Masala with Roti (3)'' 480 20 55 20,
     mk_food ''Veg Biryani'' 420 12 70 12,
     mk_food ''Sambar Rice with Papad'' 380 12 68 8,
     mk_food ''Palak Paneer with Roti (3)'' 450 22 50 18]"

definition lunch_non_vegetarian :: "food list" where
  "lunch_non_vegetarian =
    [mk_food ''Chicken Curry with Rice'' 520 35 60 15,
     mk_food ''Fish Curry with Rice'' 480 32 58 12,
     mk_food ''Chicken Biryani'' 580 30 70 18,
     mk_food ''Mutton Curry with Roti (3)'' 620 38 50 28,
     mk_food ''Egg Curry with Rice'' 450 20 62 14]"

definition lunch_vegan :: "food list" where
  "lunch_vegan =
    [mk_food ''Chana Masala with Rice'' 420 16 72 10,
     mk_food ''Mixed Veg Curry with Roti (3)'' 380 12 65 8]"

definition dinner_vegetarian :: "food list" where
  "dinner_vegetarian =
    [mk_food ''Roti (3) with Dal and Sabzi'' 380 14 60 10,
     mk_food ''Khichdi with Curd'' 320 12 55 8,
     mk_food ''Paneer Tikka with Roti (2)'' 420 24 40 18,
     mk_food ''Vegetable Pulao with Raita'' 360 10 62 10,
     mk_food ''Aloo Gobi with Roti (3)'' 340 10 58 8]"

definition dinner_non_vegetarian :: "food list" where
  "dinner_non_vegetarian =
    [mk_food ''Grilled Chicken with Roti (2)'' 420 38 35 12,
     mk_food ''Fish Fry with Salad'' 350 32 20 16,
     mk_food ''Chicken Tandoori with Roti (2)'' 400 36 35 10,
     mk_food ''Egg Curry with Roti (2)'' 380 18 42 14]"

definition dinner_vegan :: "food list" where
  "dinner_vegan =
    [mk_food ''Tofu Curry with Rice'' 380 18 58 10,
     mk_food ''Mixed Dal with Roti (3)'' 340 16 60 6]"

definition snacks_vegetarian :: "food list" where
  "snacks_vegetarian =
    [mk_food ''Fruit Chaat'' 120 2 28 1,
     mk_food ''Roasted Chana'' 150 8 25 3,
     mk_food ''Sprouts Salad'' 100 7 18 1,
     mk_food ''Dhokla (2 pieces)'' 140 5 24 3,
     mk_food ''Masala Chai with Biscuits'' 160 4 28 4,
     mk_food ''Banana with Peanut Butter'' 200 6 30 8]"

definition snacks_non_vegetarian :: "food list" where
  "snacks_non_vegetarian =
    [mk_food ''Boiled Eggs (2)'' 140 12 2 10,
     mk_food ''Chicken Tikka (4 pieces)'' 180 24 4 8]"

definition snacks_vegan :: "food list" where
  "snacks_vegan =
    [mk_food ''Mixed Nuts (30g)'' 180 6 8 15,
     mk_food ''Hummus with Veggies'' 150 6 18 6]"

text \<open>
  \<^verbatim>\<open>self.food_db\<close>: a dictionary of dictionaries, kept as association lists. The breakfast
  entry has no \<^verbatim>\<open>'vegan'\<close> key; lunch, dinner and snacks have no \<^verbatim>\<open>'eggetarian'\<close> key.
\<close>

definition food_db :: "(string \<times> (string \<times> food list) list) list" where
  "food_db =
    [(''breakfast'', [(''vegetarian'', breakfast_vegetarian),
                      (''non-vegetarian'', breakfast_non_vegetarian),
                      (''eggetarian'', breakfast_eggetarian)]),
     (''lunch'', [(''vegetarian'', lunch_vegetarian),
                  (''non-vegetarian'', lunch_non_vegetarian),
                  (''vegan'', lunch_vegan)]),
     (''dinner'', [(''vegetarian'', dinner_vegetarian),
                   (''non-vegetarian'', dinner_non_vegetarian),
                   (''vegan'', dinner_vegan)]),
     (''snacks'', [(''vegetarian'', snacks_vegetarian),
                   (''non-vegetarian'', snacks_non_vegetarian),
                   (''vegan'', snacks_vegan)])]"

text \<open>
  Python's \<^verbatim>\<open>min(xs, key=f)\<close> on a non-empty list: it keeps the first element and replaces
  it only by an element whose key is strictly smaller.
\<close>

fun min_by_key :: "('a \<Rightarrow> real) \<Rightarrow> 'a \<Rightarrow> 'a list \<Rightarrow> 'a" where
  "min_by_key key best [] = best"
| "min_by_key key best (x # xs) = min_by_key key (if key x < key best then x else best) xs"

text \<open>The \<^verbatim>\<open>if/elif\<close> chain of \<^verbatim>\<open>_select_meal\<close> on the dictionary of one meal slot.\<close>

definition available_meals :: "(string \<times> food list) list \<Rightarrow> string \<Rightarrow> food list" where
  "available_meals slot_db diet_pref =
     (if diet_pref = ''vegetarian'' then dict_get slot_db ''vegetarian'' []
      else if diet_pref = ''non-vegetarian'' then
        dict_get slot_db ''vegetarian'' [] @ dict_get slot_db ''non-vegetarian'' []
      else if diet_pref = ''vegan'' then
        (let vegan = dict_get slot_db ''vegan'' []
         in if vegan = [] then dict_get slot_db ''vegetarian'' [] else vegan)
      else if diet_pref = ''eggetarian'' then
        dict_get slot_db ''vegetarian'' [] @ dict_get slot_db ''eggetarian'' []
      else [])"

definition calorie_gap :: "real \<Rightarrow> food \<Rightarrow> real" where
  "calorie_gap target_calories x = \<bar>real_of_int (calories x) - target_calories\<bar>"

text \<open>
  \<^verbatim>\<open>_select_meal\<close>: \<^verbatim>\<open>self.food_db[meal_type]\<close> raises \<^verbatim>\<open>KeyError\<close> on an unknown slot,
  an empty pool gives \<^verbatim>\<open>None\<close>.
\<close>

definition select_meal :: "string \<Rightarrow> string \<Rightarrow> real \<Rightarrow> py_error + food option" where
  "select_meal meal_type diet_pref target_calories =
     (case map_of food_db meal_type of
        None \<Rightarrow> Inl KeyError
      | Some slot_db \<Rightarrow>
          (case available_meals slot_db diet_pref of
             [] \<Rightarrow> Inr None
           | m # ms \<Rightarrow> Inr (Some (min_by_key (calorie_gap target_calories) m ms))))"

record daily_meals =
  day :: int
  date :: string
  total_calories :: int
  total_protein :: int
  total_carbs :: int
  total_fat :: int
  meals :: "(string \<times> food) list"

text \<open>The body of the inner \<^verbatim>\<open>for meal_type, meal in [...]\<close> loop.\<close>

definition add_meal :: "daily_meals \<Rightarrow> string \<times> food option \<Rightarrow> daily_meals" where
  "add_meal d tm =
     (case snd tm of
        None \<Rightarrow> d
      | Some meal \<Rightarrow>
          d\<lparr>meals := meals d @ [(fst tm, meal)],
            total_calories := total_calories d + calories meal,
            total_protein := total_protein d + protein meal,
            total_carbs := total_carbs d + carbs meal,
            total_fat := total_fat d + fat meal\<rparr>)"

definition adjust_calories :: "real \<Rightarrow> string \<Rightarrow> real" where
  "adjust_calories calorie_target goal =
     (if lower goal = ''weight loss'' then calorie_target - 500
      else if lower goal = ''muscle gain'' then calorie_target + 300
      else calorie_target)"

text \<open>One iteration of the \<^verbatim>\<open>for day in range(1, num_days + 1)\<close> loop; \<open>today\<close> is the
  formatted clock reading.\<close>

definition build_day :: "string \<Rightarrow> real \<Rightarrow> string \<Rightarrow> int \<Rightarrow> py_error + daily_meals" where
  "build_day diet_pref daily_calories today d =
     (case select_meal ''breakfast'' diet_pref (daily_calories * 0.25) of
        Inl e \<Rightarrow> Inl e
      | Inr breakfast \<Rightarrow>
     (case select_meal ''lunch'' diet_pref (daily_calories * 0.35) of
        Inl e \<Rightarrow> Inl e
      | Inr lunch \<Rightarrow>
     (case select_meal ''dinner'' diet_pref (daily_calories * 0.30) of
        Inl e \<Rightarrow> Inl e
      | Inr dinner \<Rightarrow>
     (case select_meal ''snacks'' diet_pref (daily_calories * 0.10) of
        Inl e \<Rightarrow> Inl e
      | Inr snack \<Rightarrow>
          Inr (foldl add_meal
                 \<lparr>day = d, date = today, total_calories = 0, total_protein = 0,
                  total_carbs = 0, total_fat = 0, meals = []\<rparr>
                 [(''Breakfast'', breakfast), (''Lunch'', lunch),
                  (''Dinner'', dinner), (''Snacks'', snack)])))))"

text \<open>A \<^verbatim>\<open>for\<close> loop that appends one result per element and stops at the first exception.\<close>

fun for_each :: "('a \<Rightarrow> 'e + 'b) \<Rightarrow> 'a list \<Rightarrow> 'e + 'b list" where
  "for_each f [] = Inr []"
| "for_each f (x # xs) =
     (case f x of
        Inl e \<Rightarrow> Inl e
      | Inr y \<Rightarrow> (case for_each f xs of Inl e \<Rightarrow> Inl e | Inr ys \<Rightarrow> Inr (y # ys)))"

definition generate_meal_plan ::
  "string \<Rightarrow> real \<Rightarrow> int \<Rightarrow> string \<Rightarrow> string \<Rightarrow> py_error + daily_meals list" where
  "generate_meal_plan diet_preference calorie_target num_days goal today =
     for_each (build_day (lower diet_preference) (adjust_calories calorie_target goal) today)
       [1..num_days]"


subsection \<open>The meal selection as the specification words it\<close>

text \<open>
  The definitions below are not translated from the code: they restate the specification
  (the candidate pool of a slot, and "the item nearest to the target, the earliest one on a
  tie"), to be compared with \<^const>\<open>available_meals\<close> and \<^const>\<open>select_meal\<close>.
\<close>

definition diet_list :: "string \<Rightarrow> string \<Rightarrow> food list" where
  "diet_list slot tag = (case map_of food_db slot of None \<Rightarrow> [] | Some d \<Rightarrow> dict_get d tag [])"

definition candidate_pool :: "string \<Rightarrow> string \<Rightarrow> food list" where
  "candidate_pool slot diet =
     (if diet = ''vegetarian'' then diet_list slot ''vegetarian''
      else if diet = ''non-vegetarian'' then
        diet_list slot ''vegetarian'' @ diet_list slot ''non-vegetarian''
      else if diet = ''vegan'' then
        (if diet_list slot ''vegan'' = [] then diet_list slot ''vegetarian''
         else diet_list slot ''vegan'')
      else if diet = ''eggetarian'' then
        diet_list slot ''vegetarian'' @ diet_list slot ''eggetarian''
      else [])"

definition first_nearest :: "food list \<Rightarrow> real \<Rightarrow> food \<Rightarrow> bool" where
  "first_nearest pool t m \<longleftrightarrow>
     (\<exists>before after. pool = before @ m # after \<and>
        (\<forall>x \<in> set before. calorie_gap t m < calorie_gap t x) \<and>
        (\<forall>x \<in> set after. calorie_gap t m \<le> calorie_gap t x))"

definition meal_slots :: "string list" where
  "meal_slots = [''breakfast'', ''lunch'', ''dinner'', ''snacks'']"

definition recognized_diets :: "string list" where
  "recognized_diets = [''vegetarian'', ''non-vegetarian'', ''vegan'', ''eggetarian'']"

section \<open>Workout generator (\<^verbatim>\<open>utils/workout_generator.py\<close>)\<close>

record exercise =
  ex_name :: string
  sets :: int
  reps :: string
  rest :: string

definition mk_exercise :: "string \<Rightarrow> int \<Rightarrow> string \<Rightarrow> string \<Rightarrow> exercise" where
  "mk_exercise n s r t = \<lparr>ex_name = n, sets = s, reps = r, rest = t\<rparr>"

text \<open>The lists of \<^verbatim>\<open>_initialize_exercises\<close>.\<close>

definition home_strength_beginner :: "exercise list" where
  "home_strength_beginner =
    [mk_exercise ''Push-ups'' 3 ''8-12'' ''60s'',
     mk_exercise ''Bodyweight Squats'' 3 ''12-15'' ''60s'',
     mk_exercise ''Plank'' 3 ''30-45s'' ''45s'',
     mk_exercise ''Lunges'' 3 ''10 each leg'' ''60s'',
     mk_exercise ''Glute Bridges'' 3 ''12-15'' ''45s'',
     mk_exercise ''Wall Sit'' 3 ''30-45s'' ''60s'',
     mk_exercise ''Mountain Climbers'' 3 ''20'' ''45s'',
     mk_exercise ''Tricep Dips (chair)'' 3 ''8-12'' ''60s'']"

definition home_strength_intermediate :: "exercise list" where
  "home_strength_intermediate =
    [mk_exercise ''Diamond Push-ups'' 4 ''10-15'' ''60s'',
     mk_exercise ''Jump Squats'' 4 ''12-15'' ''60s'',
     mk_exercise ''Side Plank'' 3 ''45s each'' ''45s'',
     mk_exercise ''Bulgarian Split Squats'' 3 ''12 each'' ''60s'',
     mk_exercise ''Pike Push-ups'' 3 ''10-12'' ''60s'',
     mk_exercise ''Single Leg Deadlift'' 3 ''10 each'' ''60s'',
     mk_exercise ''Burpees'' 4 ''10-12'' ''60s'']"

definition home_strength_advanced :: "exercise list" where
  "home_strength_advanced =
    [mk_exercise ''One-Arm Push-ups'' 4 ''6-8 each'' ''90s'',
     mk_exercise ''Pistol Squats'' 4 ''8-10 each'' ''90s'',
     mk_exercise ''Handstand Push-ups'' 3 ''5-8'' ''120s'',
     mk_exercise ''Archer Push-ups'' 4 ''8-10 each'' ''90s'',
     mk_exercise ''Dragon Flags'' 3 ''6-8'' ''120s'']"

definition home_cardio_beginner :: "exercise list" where
  "home_cardio_beginner =
    [mk_exercise ''Jumping Jacks'' 3 ''30s'' ''30s'',
     mk_exercise ''High Knees'' 3 ''30s'' ''30s'',
     mk_exercise ''Butt Kicks'' 3 ''30s'' ''30s'',
     mk_exercise ''Step-ups'' 3 ''45s'' ''45s'']"

definition home_cardio_intermediate :: "exercise list" where
  "home_cardio_intermediate =
    [mk_exercise ''Burpees'' 4 ''45s'' ''30s'',
     mk_exercise ''Mountain Climbers'' 4 ''45s'' ''30s'',
     mk_exercise ''Jump Rope'' 4 ''60s'' ''30s'',
     mk_exercise ''Box Jumps'' 3 ''12-15'' ''60s'']"

definition home_cardio_advanced :: "exercise list" where
  "home_cardio_advanced =
    [mk_exercise ''Burpee Box Jumps'' 4 ''60s'' ''30s'',
     mk_exercise ''Sprint Intervals'' 6 ''30s sprint'' ''30s'',
     mk_exercise ''Plyometric Push-ups'' 4 ''10-12'' ''60s'']"

definition gym_strength_beginner :: "exercise list" where
  "gym_strength_beginner =
    [mk_exercise ''Barbell Bench Press'' 3 ''8-12'' ''90s'',
     mk_exercise ''Lat Pulldown'' 3 ''10-12'' ''60s'',
     mk_exercise ''Leg Press'' 3 ''12-15'' ''90s'',
     mk_exercise ''Dumbbell Shoulder Press'' 3 ''10-12'' ''60s'',
     mk_exercise ''Cable Rows'' 3 ''10-12'' ''60s'',
     mk_exercise ''Leg Curl'' 3 ''12-15'' ''60s'']"

definition gym_strength_intermediate :: "exercise list" where
  "gym_strength_intermediate =
    [mk_exercise ''Barbell Squat'' 4 ''8-10'' ''120s'',
     mk_exercise ''Deadlift'' 4 ''6-8'' ''120s'',
     mk_exercise ''Incline Dumbbell Press'' 4 ''8-12'' ''90s'',
     mk_exercise ''Pull-ups'' 4 ''8-12'' ''90s'',
     mk_exercise ''Romanian Deadlift'' 3 ''10-12'' ''90s'',
     mk_exercise ''Barbell Rows'' 4 ''8-10'' ''90s'']"

definition gym_strength_advanced :: "exercise list" where
  "gym_strength_advanced =
    [mk_exercise ''Back Squat (Heavy)'' 5 ''5'' ''180s'',
     mk_exercise ''Deadlift (Heavy)'' 5 ''5'' ''180s'',
     mk_exercise ''Weighted Pull-ups'' 4 ''6-8'' ''120s'',
     mk_exercise ''Front Squat'' 4 ''6-8'' ''120s'',
     mk_exercise ''Overhead Press'' 4 ''6-8'' ''120s'']"

definition gym_cardio_beginner :: "exercise list" where
  "gym_cardio_beginner =
    [mk_exercise ''Treadmill Walk/Jog'' 1 ''20 min'' ''0s'',
     mk_exercise ''Stationary Bike'' 1 ''15 min'' ''0s'',
     mk_exercise ''Elliptical'' 1 ''15 min'' ''0s'']"

definition gym_cardio_intermediate :: "exercise list" where
  "gym_cardio_intermediate =
    [mk_exercise ''Treadmill HIIT'' 8 ''1 min sprint/1 min walk'' ''0s'',
     mk_exercise ''Rowing Machine'' 1 ''20 min'' ''0s'',
     mk_exercise ''Stair Climber'' 1 ''15 min'' ''0s'']"

definition gym_cardio_advanced :: "exercise list" where
  "gym_cardio_advanced =
    [mk_exercise ''Sprint Intervals'' 10 ''30s sprint/30s rest'' ''0s'',
     mk_exercise ''Assault Bike'' 1 ''20 min'' ''0s'',
     mk_exercise ''Rowing HIIT'' 8 ''500m sprint'' ''60s'']"

definition exercises_db ::
  "(string \<times> (string \<times> (string \<times> exercise list) list) list) list" where
  "exercises_db =
    [(''home'',
        [(''strength'', [(''beginner'', home_strength_beginner),
                         (''intermediate'', home_strength_intermediate),
                         (''advanced'', home_strength_advanced)]),
         (''cardio'', [(''beginner'', home_cardio_beginner),
                       (''intermediate'', home_cardio_intermediate),
                       (''advanced'', home_cardio_advanced)])]),
     (''gym'',
        [(''strength'', [(''beginner'', gym_strength_beginner),
                         (''intermediate'', gym_strength_intermediate),
                         (''advanced'', gym_strength_advanced)]),
         (''cardio'', [(''beginner'', gym_cardio_beginner),
                       (''intermediate'', gym_cardio_intermediate),
                       (''advanced'', gym_cardio_advanced)])])]"

text \<open>\<^verbatim>\<open>d[k]\<close>: a missing key raises \<^verbatim>\<open>KeyError\<close>.\<close>

definition subscript :: "('k \<times> 'v) list \<Rightarrow> 'k \<Rightarrow> py_error + 'v" where
  "subscript d k = (case map_of d k of None \<Rightarrow> Inl KeyError | Some v \<Rightarrow> Inr v)"

text \<open>\<^verbatim>\<open>self.exercises_db[location][category][experience_level]\<close>.\<close>

definition exercise_pool_of :: "string \<Rightarrow> string \<Rightarrow> string \<Rightarrow> py_error + exercise list" where
  "exercise_pool_of location category experience_level =
     (case subscript exercises_db location of
        Inl e \<Rightarrow> Inl e
      | Inr by_category \<Rightarrow>
          (case subscript by_category category of
             Inl e \<Rightarrow> Inl e
           | Inr by_level \<Rightarrow> subscript by_level experience_level))"

subsection \<open>\<^verbatim>\<open>random.sample\<close>\<close>

text \<open>
  The random generator is an infinite sequence of naturals, read from the front:
  \<^verbatim>\<open>_randbelow(n)\<close> takes the next number modulo \<open>n\<close>, so every value below \<open>n\<close> can come out.
\<close>

type_synonym rng = "nat \<Rightarrow> nat"

definition randbelow :: "rng \<Rightarrow> nat \<Rightarrow> nat \<times> rng" where
  "randbelow g n = (g 0 mod n, \<lambda>i. g (Suc i))"

text \<open>
  The selection loop of CPython's \<^verbatim>\<open>random.sample\<close> for a population of at most 21 elements
  (all tables here have at most 8):
  \<^verbatim>\<open>for i in range(k): j = randbelow(n - i); result[i] = pool[j]; pool[j] = pool[n - i - 1]\<close>.
  The list \<open>pool\<close> of the model is the live prefix \<^verbatim>\<open>pool[0 : n - i]\<close>.
\<close>

fun sample_loop :: "rng \<Rightarrow> 'a list \<Rightarrow> nat \<Rightarrow> 'a list \<times> rng" where
  "sample_loop g pool 0 = ([], g)"
| "sample_loop g pool (Suc k) =
     (let m = length pool;
          (j, g1) = randbelow g m;
          (result, g2) = sample_loop g1 (take (m - 1) (pool[j := pool ! (m - 1)])) k
      in (pool ! j # result, g2))"

definition random_sample :: "rng \<Rightarrow> 'a list \<Rightarrow> int \<Rightarrow> py_error + ('a list \<times> rng)" where
  "random_sample g population k =
     (if 0 \<le> k \<and> k \<le> int (length population) then Inr (sample_loop g population (nat k))
      else Inl ValueError)"

subsection \<open>\<^verbatim>\<open>generate_workout\<close>\<close>

record routine_item =
  item_name :: string
  item_duration :: string

definition get_warmup :: "routine_item list" where
  "get_warmup =
    [\<lparr>item_name = ''Arm Circles'', item_duration = ''30s''\<rparr>,
     \<lparr>item_name = ''Leg Swings'', item_duration = ''30s each leg''\<rparr>,
     \<lparr>item_name = ''Torso Twists'', item_duration = ''30s''\<rparr>,
     \<lparr>item_name = ''Light Cardio (Jog in place)'', item_duration = ''2 min''\<rparr>]"

definition get_cooldown :: "routine_item list" where
  "get_cooldown =
    [\<lparr>item_name = ''Walking'', item_duration = ''3 min''\<rparr>,
     \<lparr>item_name = ''Hamstring Stretch'', item_duration = ''30s each leg''\<rparr>,
     \<lparr>item_name = ''Quad Stretch'', item_duration = ''30s each leg''\<rparr>,
     \<lparr>item_name = ''Shoulder Stretch'', item_duration = ''30s each arm''\<rparr>,
     \<lparr>item_name = ''Deep Breathing'', item_duration = ''1 min''\<rparr>]"

record workout_plan =
  plan_date :: string
  plan_type :: string
  plan_location :: string
  plan_level :: string
  plan_duration :: int
  warmup :: "routine_item list"
  exercises :: "exercise list"
  cooldown :: "routine_item list"

text \<open>The \<^verbatim>\<open>if/elif/else\<close> that chooses the pool; every type other than the three named
  ones takes the \<^verbatim>\<open>else\<close> branch ("Mixed").\<close>

definition choose_pool ::
  "rng \<Rightarrow> string \<Rightarrow> string \<Rightarrow> string \<Rightarrow> py_error + (exercise list \<times> rng)" where
  "choose_pool g location workout_type experience_level =
     (if workout_type = ''Strength Training'' then
        (case exercise_pool_of location ''strength'' experience_level of
           Inl e \<Rightarrow> Inl e | Inr pool \<Rightarrow> Inr (pool, g))
      else if workout_type \<in> set [''Cardio'', ''HIIT''] then
        (case exercise_pool_of location ''cardio'' experience_level of
           Inl e \<Rightarrow> Inl e | Inr pool \<Rightarrow> Inr (pool, g))
      else
        (case exercise_pool_of location ''strength'' experience_level of
           Inl e \<Rightarrow> Inl e
         | Inr strength_pool \<Rightarrow>
        (case exercise_pool_of location ''cardio'' experience_level of
           Inl e \<Rightarrow> Inl e
         | Inr cardio_pool \<Rightarrow>
        (case random_sample g strength_pool 3 of
           Inl e \<Rightarrow> Inl e
         | Inr (s, g1) \<Rightarrow>
        (case random_sample g1 cardio_pool 2 of
           Inl e \<Rightarrow> Inl e
         | Inr (c, g2) \<Rightarrow> Inr (s @ c, g2))))))"

definition generate_workout ::
  "rng \<Rightarrow> string \<Rightarrow> string \<Rightarrow> string \<Rightarrow> int \<Rightarrow> string \<Rightarrow> py_error + (workout_plan \<times> rng)" where
  "generate_workout g location0 workout_type experience_level0 duration_minutes today =
     (let location = lower location0; experience_level = lower experience_level0
      in case choose_pool g location workout_type experience_level of
           Inl e \<Rightarrow> Inl e
         | Inr (exercise_pool, g1) \<Rightarrow>
             (let num_exercises =
                    min (int (length exercise_pool)) (max 4 (duration_minutes div 10))
              in case random_sample g1 exercise_pool
                        (min num_exercises (int (length exercise_pool))) of
                   Inl e \<Rightarrow> Inl e
                 | Inr (selected_exercises, g2) \<Rightarrow>
                     Inr (\<lparr>plan_date = today, plan_type = workout_type,
                           plan_location = capitalize location,
                           plan_level = capitalize experience_level,
                           plan_duration = duration_minutes,
                           warmup = get_warmup,
                           exercises = selected_exercises,
                           cooldown = get_cooldown\<rparr>, g2)))"

subsection \<open>The inputs the workout claims speak of\<close>

definition valid_locations :: "string list" where
  "valid_locations = [''home'', ''gym'']"

definition valid_levels :: "string list" where
  "valid_levels = [''beginner'', ''intermediate'', ''advanced'']"

definition category_of :: "string \<Rightarrow> string" where
  "category_of workout_type = (if workout_type = ''Strength Training'' then ''strength'' else ''cardio'')"

definition all_pools :: "exercise list list" where
  "all_pools =
    [home_strength_beginner, home_strength_intermediate, home_strength_advanced,
     home_cardio_beginner, home_cardio_intermediate, home_cardio_advanced,
     gym_strength_beginner, gym_strength_intermediate, gym_strength_advanced,
     gym_cardio_beginner, gym_cardio_intermediate, gym_cardio_advanced]"

section \<open>Numbers that leave the finite range\<close>

text \<open>
  numpy floating point does not raise on a zero divisor or on the logarithm of a
  non-positive number: it yields an infinity or a NaN (with a warning). \<open>npfloat\<close> is a real
  number or one of these three values. Rounding and the sign of zero are not modelled: a
  zero divisor counts as \<open>+0.0\<close>, which is what a difference \<open>x - x\<close> and an exact
  cancellation in a sum give.
\<close>

datatype npfloat = Fin real | PInf | NInf | NaN

fun fneg :: "npfloat \<Rightarrow> npfloat" where
  "fneg (Fin a) = Fin (- a)"
| "fneg PInf = NInf"
| "fneg NInf = PInf"
| "fneg NaN = NaN"

fun fadd :: "npfloat \<Rightarrow> npfloat \<Rightarrow> npfloat" where
  "fadd NaN _ = NaN"
| "fadd _ NaN = NaN"
| "fadd (Fin a) (Fin b) = Fin (a + b)"
| "fadd PInf NInf = NaN"
| "fadd NInf PInf = NaN"
| "fadd PInf _ = PInf"
| "fadd _ PInf = PInf"
| "fadd NInf _ = NInf"
| "fadd _ NInf = NInf"

definition fsub :: "npfloat \<Rightarrow> npfloat \<Rightarrow> npfloat" where
  "fsub a b = fadd a (fneg b)"

fun fmul :: "npfloat \<Rightarrow> npfloat \<Rightarrow> npfloat" where
  "fmul NaN _ = NaN"
| "fmul _ NaN = NaN"
| "fmul (Fin a) (Fin b) = Fin (a * b)"
| "fmul (Fin a) PInf = (if a = 0 then NaN else if 0 < a then PInf else NInf)"
| "fmul (Fin a) NInf = (if a = 0 then NaN else if 0 < a then NInf else PInf)"
| "fmul PInf (Fin b) = (if b = 0 then NaN else if 0 < b then PInf else NInf)"
| "fmul NInf (Fin b) = (if b = 0 then NaN else if 0 < b then NInf else PInf)"
| "fmul PInf PInf = PInf"
| "fmul PInf NInf = NInf"
| "fmul NInf PInf = NInf"
| "fmul NInf NInf = PInf"

fun fdiv :: "npfloat \<Rightarrow> npfloat \<Rightarrow> npfloat" where
  "fdiv NaN _ = NaN"
| "fdiv _ NaN = NaN"
| "fdiv (Fin a) (Fin b) =
     (if b \<noteq> 0 then Fin (a / b)
      else if a = 0 then NaN else if 0 < a then PInf else NInf)"
| "fdiv (Fin a) PInf = Fin 0"
| "fdiv (Fin a) NInf = Fin 0"
| "fdiv PInf (Fin b) = (if 0 \<le> b then PInf else NInf)"
| "fdiv NInf (Fin b) = (if 0 \<le> b then NInf else PInf)"
| "fdiv PInf PInf = NaN"
| "fdiv PInf NInf = NaN"
| "fdiv NInf PInf = NaN"
| "fdiv NInf NInf = NaN"

text \<open>The comparison \<^verbatim>\<open>a < b\<close>: false whenever a NaN takes part.\<close>

fun flt :: "npfloat \<Rightarrow> npfloat \<Rightarrow> bool" where
  "flt (Fin a) (Fin b) = (a < b)"
| "flt NaN _ = False"
| "flt _ NaN = False"
| "flt PInf _ = False"
| "flt _ NInf = False"
| "flt NInf _ = True"
| "flt _ PInf = True"

text \<open>
  Python's built-in \<^verbatim>\<open>min(a, b)\<close> returns \<open>a\<close> unless \<^verbatim>\<open>b < a\<close>, and \<^verbatim>\<open>max(a, b)\<close> returns
  \<open>a\<close> unless \<^verbatim>\<open>b > a\<close>.
\<close>

definition py_min :: "npfloat \<Rightarrow> npfloat \<Rightarrow> npfloat" where
  "py_min a b = (if flt b a then b else a)"

definition py_max :: "npfloat \<Rightarrow> npfloat \<Rightarrow> npfloat" where
  "py_max a b = (if flt a b then b else a)"

text \<open>\<^verbatim>\<open>np.log10\<close> on a finite number.\<close>

definition np_log10 :: "real \<Rightarrow> npfloat" where
  "np_log10 x = (if 0 < x then Fin (log 10 x) else if x = 0 then NInf else NaN)"

section \<open>Body-fat predictor (\<^verbatim>\<open>utils/ml_models.py\<close>)\<close>

text \<open>The \<^verbatim>\<open>measurements\<close> dictionary: a key may be missing.\<close>

record measurements =
  gender :: "string option"
  age :: "real option"
  weight :: "real option"
  height :: "real option"
  neck :: "real option"
  chest :: "real option"
  abdomen :: "real option"
  hip :: "real option"
  thigh :: "real option"
  knee :: "real option"
  ankle :: "real option"
  biceps :: "real option"
  forearm :: "real option"
  wrist :: "real option"

text \<open>\<^verbatim>\<open>measurements.get(key, default)\<close>.\<close>

definition get_or :: "'a option \<Rightarrow> 'a \<Rightarrow> 'a" where
  "get_or v dflt = (case v of None \<Rightarrow> dflt | Some x \<Rightarrow> x)"

definition empirical_prediction :: "measurements \<Rightarrow> npfloat" where
  "empirical_prediction m =
     (let gender = lower (get_or (gender m) ''male'');
          height_cm = get_or (height m) 170;
          weight_kg = get_or (weight m) 70;
          waist_cm = get_or (abdomen m) 85;
          neck_cm = get_or (neck m) 37;
          hip_cm = get_or (hip m) 95;
          body_fat =
            (if gender = ''male'' then
               fsub (fdiv (Fin 495)
                       (fadd (fsub (Fin 1.0324) (fmul (Fin 0.19077) (np_log10 (waist_cm - neck_cm))))
                             (fmul (Fin 0.15456) (np_log10 height_cm))))
                    (Fin 450)
             else
               fsub (fdiv (Fin 495)
                       (fadd (fsub (Fin 1.29579)
                                (fmul (Fin 0.35004) (np_log10 (waist_cm + hip_cm - neck_cm))))
                             (fmul (Fin 0.22100) (np_log10 height_cm))))
                    (Fin 450))
      in py_max (Fin 5) (py_min (Fin 50) body_fat))"

definition prepare_features :: "measurements \<Rightarrow> real list" where
  "prepare_features m =
     map (\<lambda>key. get_or (key m) 0)
       [age, weight, height, neck, chest, abdomen, hip, thigh, knee, ankle, biceps, forearm,
        wrist]"

text \<open>
  The predictor object: \<open>is_trained\<close> and the fitted regression, which is sklearn's and is
  taken as a function from the feature list to its prediction.
\<close>

record body_fat_predictor =
  is_trained :: bool
  model :: "real list \<Rightarrow> npfloat"

definition predict :: "body_fat_predictor \<Rightarrow> measurements \<Rightarrow> npfloat" where
  "predict self m =
     (if \<not> is_trained self then empirical_prediction m
      else py_max (Fin 5) (py_min (Fin 50) (model self (prepare_features m))))"

subsection \<open>The quantities the body-fat claim speaks of\<close>

text \<open>
  The argument of the first logarithm (waist minus neck for men, waist plus hip minus neck
  otherwise) and the denominator of the Navy formula, as real numbers.
\<close>

definition is_male :: "measurements \<Rightarrow> bool" where
  "is_male m \<longleftrightarrow> lower (get_or (gender m) ''male'') = ''male''"

definition girth :: "measurements \<Rightarrow> real" where
  "girth m =
     (if is_male m then get_or (abdomen m) 85 - get_or (neck m) 37
      else get_or (abdomen m) 85 + get_or (hip m) 95 - get_or (neck m) 37)"

definition navy_denominator :: "measurements \<Rightarrow> real" where
  "navy_denominator m =
     (if is_male m then
        1.0324 - 0.19077 * log 10 (girth m) + 0.15456 * log 10 (get_or (height m) 170)
      else 1.29579 - 0.35004 * log 10 (girth m) + 0.22100 * log 10 (get_or (height m) 170))"

definition male_measurements :: "real \<Rightarrow> real \<Rightarrow> real \<Rightarrow> measurements" where
  "male_measurements h w n =
     \<lparr>gender = Some ''male'', age = None, weight = None, height = Some h, neck = Some n,
      chest = None, abdomen = Some w, hip = None, thigh = None, knee = None, ankle = None,
      biceps = None, forearm = None, wrist = None\<rparr>"

section \<open>Percent-to-goal (\<^verbatim>\<open>show_progress\<close> in \<^verbatim>\<open>app_dashboard_functions.py\<close>)\<close>

text \<open>
  \<open>weights\<close> is the weight column of the data frame after \<^verbatim>\<open>sort_values('date')\<close>, a column of
  numpy floats; \<open>goal\<close> is the profile's \<^verbatim>\<open>goal_weight\<close>, if the profile has one. An empty
  history shows nothing.
\<close>

definition progress_percentage :: "real \<Rightarrow> real \<Rightarrow> real option \<Rightarrow> npfloat" where
  "progress_percentage start_weight current_weight goal =
     (let goal_weight = get_or goal start_weight;
          weight_change = start_weight - current_weight;
          pct = (if goal_weight < start_weight then
                   fmul (fdiv (Fin weight_change) (Fin (start_weight - goal_weight))) (Fin 100)
                 else
                   fmul (fdiv (Fin \<bar>weight_change\<bar>) (Fin (goal_weight - start_weight))) (Fin 100))
      in py_max (Fin 0) (py_min (Fin 100) pct))"

definition show_progress_percentage :: "real list \<Rightarrow> real option \<Rightarrow> npfloat option" where
  "show_progress_percentage weights goal =
     (if weights = [] then None
      else Some (progress_percentage (hd weights) (last weights) goal))"

subsection \<open>The percentage as the specification words it\<close>

definition clamp :: "real \<Rightarrow> real \<Rightarrow> real \<Rightarrow> real" where
  "clamp lo hi x = max lo (min hi x)"

definition spec_percent_to_goal :: "real \<Rightarrow> real \<Rightarrow> real \<Rightarrow> real" where
  "spec_percent_to_goal start current goal =
     (if goal < start then clamp 0 100 ((start - current) / (start - goal) * 100)
      else clamp 0 100 (\<bar>start - current\<bar> / (goal - start) * 100))"

section \<open>Store (\<^verbatim>\<open>utils/database.py\<close>)\<close>

text \<open>
  The exceptions of the sqlite layer: a constraint violation, or any other failure (disk
  I/O, a locked file, a missing table).
\<close>

datatype db_exc = IntegrityError | OperationalError

record user_row =
  user_id :: nat
  username :: string
  email :: string
  password_hash :: string
  created_at :: string
  last_login :: "string option"
  is_active :: bool

text \<open>The \<^verbatim>\<open>progress_data\<close> dictionary (a key may be missing) and a row of the table.\<close>

record progress_data =
  entry_date :: "string option"
  entry_weight :: "real option"
  entry_body_fat :: "real option"
  entry_waist :: "real option"
  entry_chest :: "real option"
  entry_arms :: "real option"
  entry_notes :: "string option"

record progress_row =
  progress_id :: nat
  progress_user_id :: nat
  progress_date :: string
  progress_values :: progress_data
  progress_created_at :: string

text \<open>
  The committed write statements, oldest first. The log is not in the source: it is kept
  to count the writes of a call.
\<close>

datatype write_stmt = InsertUser nat | UpdateLastLogin nat | InsertProgress nat

text \<open>
  The database file: the two tables the modelled operations touch, the \<^verbatim>\<open>AUTOINCREMENT\<close>
  counters, and the write log. Rows are in rowid order.
\<close>

record store =
  users :: "user_row list"
  user_seq :: nat
  progress :: "progress_row list"
  progress_seq :: nat
  writes :: "write_stmt list"

text \<open>
  Every operation opens its own connection and runs one statement. \<open>fault\<close> is the failure,
  if any, that the sqlite layer meets during this call for a reason outside the tables (I/O);
  \<open>now\<close> is \<^verbatim>\<open>CURRENT_TIMESTAMP\<close>. A result \<open>Inl e\<close> is the exception \<open>e\<close> leaving the
  operation; no statement was committed then, so the store is the one passed in.
\<close>

text \<open>The \<^verbatim>\<open>try\<close> body of \<^verbatim>\<open>create_user\<close>: the \<^verbatim>\<open>INSERT\<close> violates \<^verbatim>\<open>UNIQUE\<close> when the
  username or the email is already in the table.\<close>

definition insert_user ::
  "db_exc option \<Rightarrow> string \<Rightarrow> store \<Rightarrow> string \<Rightarrow> string \<Rightarrow> string \<Rightarrow> db_exc + (nat \<times> store)" where
  "insert_user fault now s uname mail pwhash =
     (case fault of
        Some e \<Rightarrow> Inl e
      | None \<Rightarrow>
          if list_ex (\<lambda>u. username u = uname \<or> email u = mail) (users s) then Inl IntegrityError
          else
            (let uid = user_seq s + 1
             in Inr (uid,
                  s\<lparr>users := users s @
                       [\<lparr>user_id = uid, username = uname, email = mail, password_hash = pwhash,
                         created_at = now, last_login = None, is_active = True\<rparr>],
                    user_seq := uid,
                    writes := writes s @ [InsertUser uid]\<rparr>)))"

text \<open>\<^verbatim>\<open>create_user\<close>: \<^verbatim>\<open>except sqlite3.IntegrityError: return None\<close>; nothing else is caught.\<close>

definition create_user ::
  "db_exc option \<Rightarrow> string \<Rightarrow> store \<Rightarrow> string \<Rightarrow> string \<Rightarrow> string \<Rightarrow>
     db_exc + (nat option \<times> store)" where
  "create_user fault now s uname mail pwhash =
     (case insert_user fault now s uname mail pwhash of
        Inl IntegrityError \<Rightarrow> Inr (None, s)
      | Inl e \<Rightarrow> Inl e
      | Inr (uid, s') \<Rightarrow> Inr (Some uid, s'))"

text \<open>The three reads and \<^verbatim>\<open>update_last_login\<close> have no \<^verbatim>\<open>try\<close>.\<close>

definition get_user_by_username :: "db_exc option \<Rightarrow> store \<Rightarrow> string \<Rightarrow> db_exc + user_row option" where
  "get_user_by_username fault s uname =
     (case fault of Some e \<Rightarrow> Inl e | None \<Rightarrow> Inr (find (\<lambda>u. username u = uname) (users s)))"

definition get_user_by_email :: "db_exc option \<Rightarrow> store \<Rightarrow> string \<Rightarrow> db_exc + user_row option" where
  "get_user_by_email fault s mail =
     (case fault of Some e \<Rightarrow> Inl e | None \<Rightarrow> Inr (find (\<lambda>u. email u = mail) (users s)))"

definition get_user_by_id :: "db_exc option \<Rightarrow> store \<Rightarrow> nat \<Rightarrow> db_exc + user_row option" where
  "get_user_by_id fault s uid =
     (case fault of Some e \<Rightarrow> Inl e | None \<Rightarrow> Inr (find (\<lambda>u. user_id u = uid) (users s)))"

definition update_last_login :: "db_exc option \<Rightarrow> string \<Rightarrow> store \<Rightarrow> nat \<Rightarrow> db_exc + store" where
  "update_last_login fault now s uid =
     (case fault of
        Some e \<Rightarrow> Inl e
      | None \<Rightarrow>
          Inr (s\<lparr>users := map (\<lambda>u. if user_id u = uid then u\<lparr>last_login := Some now\<rparr> else u)
                           (users s),
                 writes := writes s @ [UpdateLastLogin uid]\<rparr>))"

text \<open>The \<^verbatim>\<open>try\<close> body of \<^verbatim>\<open>add_progress_entry\<close>: the \<^verbatim>\<open>date\<close> column is \<^verbatim>\<open>NOT NULL\<close>
  (foreign keys are not enforced: the connection never switches them on).\<close>

definition insert_progress ::
  "db_exc option \<Rightarrow> string \<Rightarrow> store \<Rightarrow> nat \<Rightarrow> progress_data \<Rightarrow> db_exc + store" where
  "insert_progress fault now s uid pd =
     (case fault of
        Some e \<Rightarrow> Inl e
      | None \<Rightarrow>
          (case entry_date pd of
             None \<Rightarrow> Inl IntegrityError
           | Some d \<Rightarrow>
               (let pid = progress_seq s + 1
                in Inr (s\<lparr>progress := progress s @
                             [\<lparr>progress_id = pid, progress_user_id = uid, progress_date = d,
                               progress_values = pd, progress_created_at = now\<rparr>],
                          progress_seq := pid,
                          writes := writes s @ [InsertProgress pid]\<rparr>))))"

text \<open>\<^verbatim>\<open>add_progress_entry\<close>: \<^verbatim>\<open>except Exception\<close> prints and returns \<^verbatim>\<open>False\<close>.\<close>

definition add_progress_entry ::
  "db_exc option \<Rightarrow> string \<Rightarrow> store \<Rightarrow> nat \<Rightarrow> progress_data \<Rightarrow> db_exc + (bool \<times> store)" where
  "add_progress_entry fault now s uid pd =
     (case insert_progress fault now s uid pd of
        Inl e \<Rightarrow> Inr (False, s)
      | Inr s' \<Rightarrow> Inr (True, s'))"

section \<open>Credential manager (\<^verbatim>\<open>utils/auth.py\<close>)\<close>

subsection \<open>The regular expressions\<close>

text \<open>
  The three patterns are sequences of literal characters and of character classes repeated
  at least \<open>n\<close> times (\<^verbatim>\<open>+\<close> is "at least once", \<^verbatim>\<open>{2,}\<close> "at least twice"). \<open>rmatch\<close> decides
  whether the whole string matches such a sequence.
\<close>

datatype rx_item = Lit char | Many "char list" nat

fun rmatch :: "rx_item list \<Rightarrow> string \<Rightarrow> bool" where
  "rmatch [] s = (s = [])"
| "rmatch (Lit c # ps) [] = False"
| "rmatch (Lit c # ps) (x # xs) = (x = c \<and> rmatch ps xs)"
| "rmatch (Many cs 0 # ps) [] = rmatch ps []"
| "rmatch (Many cs 0 # ps) (x # xs) =
     (rmatch ps (x # xs) \<or> (x \<in> set cs \<and> rmatch (Many cs 0 # ps) xs))"
| "rmatch (Many cs (Suc n) # ps) [] = False"
| "rmatch (Many cs (Suc n) # ps) (x # xs) = (x \<in> set cs \<and> rmatch (Many cs n # ps) xs)"

definition newline :: char where
  "newline = CHR 0x0A"

text \<open>
  \<^verbatim>\<open>re.match('^...$', s)\<close>: without \<^verbatim>\<open>re.MULTILINE\<close>, \<^verbatim>\<open>$\<close> matches at the end of the string
  and also just before a newline that ends the string.
\<close>

definition re_match_dollar :: "rx_item list \<Rightarrow> string \<Rightarrow> bool" where
  "re_match_dollar p s \<longleftrightarrow>
     rmatch p s \<or> (s \<noteq> [] \<and> last s = newline \<and> rmatch p (butlast s))"

definition letters :: "char list" where
  "letters = ''abcdefghijklmnopqrstuvwxyzABCDEFGHIJKLMNOPQRSTUVWXYZ''"

definition digits :: "char list" where
  "digits = ''0123456789''"

definition username_pattern :: "rx_item list" where
  "username_pattern = [Many (letters @ digits @ ''_'') 1]"

definition email_pattern :: "rx_item list" where
  "email_pattern =
     [Many (letters @ digits @ ''._%+-'') 1, Lit (CHR ''@''),
      Many (letters @ digits @ ''.-'') 1, Lit (CHR ''.''), Many letters 2]"

subsection \<open>Validation\<close>

definition validate_email :: "string \<Rightarrow> bool \<times> string" where
  "validate_email mail =
     (if mail = [] then (False, ''Email is required'')
      else if \<not> re_match_dollar email_pattern mail then (False, ''Invalid email format'')
      else (True, ''''))"

definition validate_username :: "string \<Rightarrow> bool \<times> string" where
  "validate_username uname =
     (if uname = [] then (False, ''Username is required'')
      else if length uname < 3 then (False, ''Username must be at least 3 characters'')
      else if length uname > 20 then (False, ''Username must be less than 20 characters'')
      else if \<not> re_match_dollar username_pattern uname then
        (False, ''Username can only contain letters, numbers, and underscores'')
      else (True, ''''))"

definition MIN_PASSWORD_LENGTH :: nat where
  "MIN_PASSWORD_LENGTH = 8"

text \<open>\<^verbatim>\<open>re.search('[A-Za-z]', password)\<close> finds a letter anywhere in the password. The
  length message is an f-string over \<^verbatim>\<open>MIN_PASSWORD_LENGTH\<close>, which is 8.\<close>

definition validate_password :: "string \<Rightarrow> bool \<times> string" where
  "validate_password password =
     (if password = [] then (False, ''Password is required'')
      else if length password < MIN_PASSWORD_LENGTH then
        (False, ''Password must be at least 8 characters'')
      else if \<not> list_ex (\<lambda>c. c \<in> set letters) password then
        (False, ''Password must contain at least one letter'')
      else if \<not> list_ex (\<lambda>c. c \<in> set digits) password then
        (False, ''Password must contain at least one number'')
      else (True, ''''))"

subsection \<open>bcrypt\<close>

text \<open>
  bcrypt is a library. \<open>hashpw\<close> stands for \<^verbatim>\<open>hash_password\<close> (salt generation included):
  \<open>Some\<close> the hash, or \<open>None\<close> when \<^verbatim>\<open>bcrypt.hashpw\<close> raises \<^verbatim>\<open>ValueError\<close> (a password of
  more than 72 bytes, in the releases that refuse it). \<open>checkpw\<close> stands for
  \<^verbatim>\<open>bcrypt.checkpw\<close>, with \<open>None\<close> when it raises (a malformed hash, an overlong password).
  \<^verbatim>\<open>hash_password\<close> has no handler; \<^verbatim>\<open>verify_password\<close> turns the exception into \<^verbatim>\<open>False\<close>.
\<close>

definition verify_password :: "(string \<Rightarrow> string \<Rightarrow> bool option) \<Rightarrow> string \<Rightarrow> string \<Rightarrow> bool" where
  "verify_password checkpw password pwhash =
     (case checkpw password pwhash of None \<Rightarrow> False | Some b \<Rightarrow> b)"

subsection \<open>Registration and login\<close>

text \<open>
  \<open>faults\<close> lists the storage faults of the successive store calls of one request: the
  \<open>i\<close>-th call meets \<open>fault_at faults i\<close>. The credential manager catches nothing, so an
  exception of the store or of \<^verbatim>\<open>hash_password\<close> leaves it unchanged; it holds no write,
  since the only write of a request is its last store call.
\<close>

definition fault_at :: "db_exc option list \<Rightarrow> nat \<Rightarrow> db_exc option" where
  "fault_at faults i = (if i < length faults then faults ! i else None)"

datatype auth_exc = StoreExc db_exc | BcryptValueError

type_synonym register_result = "bool \<times> string \<times> nat option"

definition register_user ::
  "(string \<Rightarrow> string option) \<Rightarrow> db_exc option list \<Rightarrow> string \<Rightarrow> store \<Rightarrow>
     string \<Rightarrow> string \<Rightarrow> string \<Rightarrow> auth_exc + (register_result \<times> store)" where
  "register_user hashpw faults now s uname mail password =
     (if \<not> fst (validate_username uname) then
        Inr ((False, snd (validate_username uname), None), s)
      else if \<not> fst (validate_email mail) then
        Inr ((False, snd (validate_email mail), None), s)
      else if \<not> fst (validate_password password) then
        Inr ((False, snd (validate_password password), None), s)
      else
        (case get_user_by_username (fault_at faults 0) s uname of
           Inl e \<Rightarrow> Inl (StoreExc e)
         | Inr (Some u) \<Rightarrow> Inr ((False, ''Username already exists'', None), s)
         | Inr None \<Rightarrow>
        (case get_user_by_email (fault_at faults 1) s mail of
           Inl e \<Rightarrow> Inl (StoreExc e)
         | Inr (Some u) \<Rightarrow> Inr ((False, ''Email already registered'', None), s)
         | Inr None \<Rightarrow>
        (case hashpw password of
           None \<Rightarrow> Inl BcryptValueError
         | Some pwhash \<Rightarrow>
        (case create_user (fault_at faults 2) now s uname mail pwhash of
           Inl e \<Rightarrow> Inl (StoreExc e)
         | Inr (Some uid, s') \<Rightarrow> Inr ((True, ''Registration successful'', Some uid), s')
         | Inr (None, s') \<Rightarrow>
             Inr ((False, ''Registration failed. Please try again.'', None), s'))))))"

text \<open>The dictionary that login returns: the row without \<^verbatim>\<open>password_hash\<close>.\<close>

record user_data =
  data_id :: nat
  data_username :: string
  data_email :: string
  data_created_at :: string
  data_last_login :: "string option"
  data_is_active :: bool

definition strip_hash :: "user_row \<Rightarrow> user_data" where
  "strip_hash u =
     \<lparr>data_id = user_id u, data_username = username u, data_email = email u,
      data_created_at = created_at u, data_last_login = last_login u,
      data_is_active = is_active u\<rparr>"

type_synonym login_result = "bool \<times> string \<times> user_data option"

text \<open>The lookup of \<^verbatim>\<open>login_user\<close>: by username, and by email when no username matches.
  The second component is the number of store calls made.\<close>

definition find_login_user ::
  "db_exc option list \<Rightarrow> store \<Rightarrow> string \<Rightarrow> db_exc + (user_row option \<times> nat)" where
  "find_login_user faults s username_or_email =
     (case get_user_by_username (fault_at faults 0) s username_or_email of
        Inl e \<Rightarrow> Inl e
      | Inr (Some u) \<Rightarrow> Inr (Some u, 1)
      | Inr None \<Rightarrow>
          (case get_user_by_email (fault_at faults 1) s username_or_email of
             Inl e \<Rightarrow> Inl e
           | Inr r \<Rightarrow> Inr (r, 2)))"

definition login_user ::
  "(string \<Rightarrow> string \<Rightarrow> bool option) \<Rightarrow> db_exc option list \<Rightarrow> string \<Rightarrow> store \<Rightarrow> string \<Rightarrow> string \<Rightarrow>
     db_exc + (login_result \<times> store)" where
  "login_user checkpw faults now s username_or_email password =
     (if username_or_email = [] \<or> password = [] then
        Inr ((False, ''Username/email and password are required'', None), s)
      else
        (case find_login_user faults s username_or_email of
           Inl e \<Rightarrow> Inl e
         | Inr (None, calls) \<Rightarrow> Inr ((False, ''Invalid credentials'', None), s)
         | Inr (Some u, calls) \<Rightarrow>
             if \<not> verify_password checkpw password (password_hash u) then
               Inr ((False, ''Invalid credentials'', None), s)
             else if \<not> is_active u then Inr ((False, ''Account is disabled'', None), s)
             else
               (case update_last_login (fault_at faults calls) now s (user_id u) of
                  Inl e \<Rightarrow> Inl e
                | Inr s' \<Rightarrow> Inr ((True, ''Login successful'', Some (strip_hash u)), s'))))"

subsection \<open>Sample values for the concrete instances\<close>

text \<open>
  A stand-in for bcrypt (the "hash" is the reversed password behind a prefix, and a
  password of more than 72 characters is refused), and a store with one active and one
  disabled account.
\<close>

definition sample_hash :: "string \<Rightarrow> string" where
  "sample_hash password = ''$2b$12$'' @ rev password"

definition sample_hashpw :: "string \<Rightarrow> string option" where
  "sample_hashpw password = (if 72 < length password then None else Some (sample_hash password))"

definition sample_checkpw :: "string \<Rightarrow> string \<Rightarrow> bool option" where
  "sample_checkpw password pwhash =
     (if 72 < length password then None else Some (pwhash = sample_hash password))"

definition sample_store :: store where
  "sample_store =
     \<lparr>users =
        [\<lparr>user_id = 1, username = ''alice'', email = ''alice@example.com'',
          password_hash = sample_hash ''wonder1and'', created_at = ''2024-01-01 10:00:00'',
          last_login = None, is_active = True\<rparr>,
         \<lparr>user_id = 2, username = ''bob_99'', email = ''bob@example.org'',
          password_hash = sample_hash ''builder22'', created_at = ''2024-01-02 11:30:00'',
          last_login = Some ''2024-01-03 09:00:00'', is_active = False\<rparr>],
      user_seq = 2, progress = [], progress_seq = 0, writes = []\<rparr>"

definition sample_entry :: progress_data where
  "sample_entry =
     \<lparr>entry_date = Some ''2024-02-01'', entry_weight = Some 72.5, entry_body_fat = None,
      entry_waist = None, entry_chest = None, entry_arms = None, entry_notes = Some ''ok''\<rparr>"

subsection \<open>The username rule as the specification words it\<close>

text \<open>A character that is a letter, a digit or the underscore.\<close>

definition word_char :: "char \<Rightarrow> bool" where
  "word_char c \<longleftrightarrow> c \<in> set letters \<or> c \<in> set digits \<or> c = CHR ''_''"

text \<open>The string without the one newline that may end it.\<close>

definition without_final_newline :: "string \<Rightarrow> string" where
  "without_final_newline s = (if s \<noteq> [] \<and> last s = newline then butlast s else s)"

section \<open>Chat coach (\<^verbatim>\<open>utils/ai_coach.py\<close>)\<close>

text \<open>
  The two emoji that open the fixed messages lie outside the 256 characters of \<^typ>\<open>char\<close>;
  they are written as their UTF-8 bytes (U+26A0 U+FE0F and U+274C).
\<close>

definition warning_sign :: string where
  "warning_sign = [CHR 0xE2, CHR 0x9A, CHR 0xA0, CHR 0xEF, CHR 0xB8, CHR 0x8F]"

definition cross_mark :: string where
  "cross_mark = [CHR 0xE2, CHR 0x9D, CHR 0x8C]"

definition not_configured_message :: string where
  "not_configured_message =
     warning_sign @ '' AI Coach is not configured. Please add your Gemini API key in the .env file.''"

definition error_prefix :: string where
  "error_prefix = cross_mark @ '' Error getting response: ''"

text \<open>
  The coach object. \<open>model_ready\<close> says that \<^verbatim>\<open>self.model\<close> is not \<^verbatim>\<open>None\<close>. \<open>sent\<close> is not
  in the source: it lists the prompts handed to \<^verbatim>\<open>self.chat.send_message\<close>, oldest first,
  to tell whether the remote service was contacted.
\<close>

record ai_coach =
  api_key :: string
  model_ready :: bool
  sent :: "string list"

text \<open>
  \<^verbatim>\<open>__init__\<close> with \<^verbatim>\<open>_initialize_model\<close>. \<open>genai_start\<close> stands for the three library calls
  (\<^verbatim>\<open>configure\<close>, \<^verbatim>\<open>GenerativeModel\<close>, \<^verbatim>\<open>start_chat\<close>): \<open>Inl text\<close> when one of them raises,
  which the \<^verbatim>\<open>except\<close> prints before it resets \<^verbatim>\<open>self.model\<close> to \<^verbatim>\<open>None\<close>.
\<close>

definition initialize_model :: "(string \<Rightarrow> string + unit) \<Rightarrow> string \<Rightarrow> ai_coach" where
  "initialize_model genai_start key =
     \<lparr>api_key = key,
      model_ready = (key \<noteq> [] \<and> (case genai_start key of Inl e \<Rightarrow> False | Inr _ \<Rightarrow> True)),
      sent = []\<rparr>"

definition indent :: string where
  "indent = replicate 12 (CHR '' '')"

definition system_context :: string where
  "system_context =
     ''You are an expert AI Fitness Coach. You provide:'' @ [newline] @
     indent @ ''- Personalized fitness advice'' @ [newline] @
     indent @ ''- Workout tips and form corrections'' @ [newline] @
     indent @ ''- Nutrition guidance (especially Indian cuisine)'' @ [newline] @
     indent @ ''- Motivation and support'' @ [newline] @
     indent @ ''- Evidence-based fitness information'' @ [newline] @
     indent @ [newline] @
     indent @ ''Be friendly, encouraging, and professional. Keep responses concise but helpful.'' @
     [newline] @ indent"

text \<open>\<open>user_context\<close> is \<^verbatim>\<open>None\<close> or a dictionary whose values are shown as the f-string
  prints them; an empty dictionary counts as absent.\<close>

definition context_info :: "(string \<times> string) list \<Rightarrow> string" where
  "context_info ctx =
     [newline, newline] @ ''User Profile:'' @ [newline] @
     ''- Age: '' @ dict_get ctx ''age'' ''N/A'' @ [newline] @
     ''- Gender: '' @ dict_get ctx ''gender'' ''N/A'' @ [newline] @
     ''- Goal: '' @ dict_get ctx ''goal'' ''N/A'' @ [newline] @
     ''- Experience: '' @ dict_get ctx ''experience'' ''N/A'' @ [newline]"

definition full_prompt :: "string \<Rightarrow> (string \<times> string) list option \<Rightarrow> string" where
  "full_prompt user_message user_context =
     (system_context @
        (case user_context of
           None \<Rightarrow> []
         | Some ctx \<Rightarrow> if ctx \<noteq> [] then context_info ctx else [])) @
     [newline, newline] @ ''User: '' @ user_message @ [newline, newline] @ ''AI Coach:''"

text \<open>
  The \<^verbatim>\<open>try\<close> body of \<^verbatim>\<open>get_response\<close>. \<open>send_message\<close> stands for the remote call with
  the reading of \<^verbatim>\<open>response.text\<close>: \<open>Inr\<close> the reply text, \<open>Inl text\<close> an exception (of class
  \<^verbatim>\<open>Exception\<close>) whose \<^verbatim>\<open>str()\<close> is \<open>text\<close>.
\<close>

definition try_send ::
  "(string \<Rightarrow> string + string) \<Rightarrow> ai_coach \<Rightarrow> string \<Rightarrow> (string \<times> string) list option \<Rightarrow>
     (string + string) \<times> ai_coach" where
  "try_send send_message self user_message user_context =
     (let prompt = full_prompt user_message user_context
      in (send_message prompt, self\<lparr>sent := sent self @ [prompt]\<rparr>))"

text \<open>\<^verbatim>\<open>get_response\<close>: the guard on \<^verbatim>\<open>self.model\<close>, then the \<^verbatim>\<open>try\<close> with its
  \<^verbatim>\<open>except Exception as e\<close>. A result \<open>Inl\<close> would be an exception leaving the method.\<close>

definition get_response ::
  "(string \<Rightarrow> string + string) \<Rightarrow> ai_coach \<Rightarrow> string \<Rightarrow> (string \<times> string) list option \<Rightarrow>
     (string + string) \<times> ai_coach" where
  "get_response send_message self user_message user_context =
     (if \<not> model_ready self then (Inr not_configured_message, self)
      else
        (case try_send send_message self user_message user_context of
           (Inl e, self') \<Rightarrow> (Inr (error_prefix @ e), self')
         | (Inr text, self') \<Rightarrow> (Inr text, self')))"

definition sample_service :: "string \<Rightarrow> string + string" where
  "sample_service prompt = Inl ''429 quota exceeded''"

definition sample_start :: "string \<Rightarrow> string + unit" where
  "sample_start key = Inr ()"


section \<open>Properties of the meal planner\<close>

lemma min_by_key_first:
  assumes "\<forall>x \<in> set before. key b < key x" and "\<forall>x \<in> set mid. key b \<le> key x"
  shows "\<exists>pre post. before @ b # mid @ xs = pre @ min_by_key key b xs # post \<and>
           (\<forall>x \<in> set pre. key (min_by_key key b xs) < key x) \<and>
           (\<forall>x \<in> set post. key (min_by_key key b xs) \<le> key x)"
  using assms
proof (induction xs arbitrary: before b mid)
  case Nil
  then show ?case by auto
next
  case (Cons x xs)
  show ?case
  proof (cases "key x < key b")
    case True
    have a: "\<forall>y \<in> set (before @ b # mid). key x < key y"
      using Cons.prems True by fastforce
    have b: "\<forall>y \<in> set ([]::'a list). key x \<le> key y" by simp
    from Cons.IH[OF a b] True show ?thesis by simp
  next
    case False
    have b: "\<forall>y \<in> set (mid @ [x]). key b \<le> key y"
      using Cons.prems False by auto
    from Cons.IH[OF Cons.prems(1) b] False show ?thesis by simp
  qed
qed

lemma diet_list_slot:
  "map_of food_db slot = Some d \<Longrightarrow> diet_list slot tag = dict_get d tag []"
  by (simp add: diet_list_def)

lemma available_meals_pool:
  "map_of food_db slot = Some d \<Longrightarrow> available_meals d diet = candidate_pool slot diet"
  by (simp add: available_meals_def candidate_pool_def diet_list_slot Let_def)

lemma slot_lookup:
  "slot \<in> set meal_slots \<Longrightarrow> \<exists>d. map_of food_db slot = Some d"
  by (auto simp: meal_slots_def food_db_def)

lemma vegetarian_nonempty:
  "slot \<in> set meal_slots \<Longrightarrow> diet_list slot ''vegetarian'' \<noteq> []"
  by (auto simp: meal_slots_def diet_list_def food_db_def dict_get_def
      breakfast_vegetarian_def lunch_vegetarian_def dinner_vegetarian_def snacks_vegetarian_def)

lemma candidate_pool_nonempty:
  "slot \<in> set meal_slots \<Longrightarrow> diet \<in> set recognized_diets \<Longrightarrow> candidate_pool slot diet \<noteq> []"
  using vegetarian_nonempty[of slot]
  by (auto simp: candidate_pool_def recognized_diets_def)

lemma candidate_pool_unrecognized:
  "diet \<notin> set recognized_diets \<Longrightarrow> candidate_pool slot diet = []"
  by (simp add: candidate_pool_def recognized_diets_def)

lemma select_meal_recognized:
  assumes "slot \<in> set meal_slots" and "diet \<in> set recognized_diets"
  shows "\<exists>m. select_meal slot diet t = Inr (Some m) \<and> first_nearest (candidate_pool slot diet) t m"
proof -
  obtain d where d: "map_of food_db slot = Some d"
    using slot_lookup[OF assms(1)] by blast
  obtain m ms where pool: "candidate_pool slot diet = m # ms"
    using candidate_pool_nonempty[OF assms] by (cases "candidate_pool slot diet") auto
  have sel: "select_meal slot diet t = Inr (Some (min_by_key (calorie_gap t) m ms))"
    by (simp add: select_meal_def d available_meals_pool[OF d] pool)
  have "\<exists>pre post. [] @ m # [] @ ms = pre @ min_by_key (calorie_gap t) m ms # post \<and>
           (\<forall>x \<in> set pre. calorie_gap t (min_by_key (calorie_gap t) m ms) < calorie_gap t x) \<and>
           (\<forall>x \<in> set post. calorie_gap t (min_by_key (calorie_gap t) m ms) \<le> calorie_gap t x)"
    by (rule min_by_key_first) simp_all
  then have "first_nearest (candidate_pool slot diet) t (min_by_key (calorie_gap t) m ms)"
    by (simp add: first_nearest_def pool)
  with sel show ?thesis by blast
qed

lemma select_meal_unrecognized:
  assumes "slot \<in> set meal_slots" and "diet \<notin> set recognized_diets"
  shows "select_meal slot diet t = Inr None"
proof -
  obtain d where d: "map_of food_db slot = Some d"
    using slot_lookup[OF assms(1)] by blast
  show ?thesis
    by (simp add: select_meal_def d available_meals_pool[OF d] candidate_pool_unrecognized[OF assms(2)])
qed



lemma build_day_recognized:
  assumes "diet \<in> set recognized_diets"
  shows "\<exists>b l dn s.
     build_day diet dc today d =
       Inr \<lparr>day = d, date = today,
            total_calories = calories b + calories l + calories dn + calories s,
            total_protein = protein b + protein l + protein dn + protein s,
            total_carbs = carbs b + carbs l + carbs dn + carbs s,
            total_fat = fat b + fat l + fat dn + fat s,
            meals = [(''Breakfast'', b), (''Lunch'', l), (''Dinner'', dn), (''Snacks'', s)]\<rparr> \<and>
     first_nearest (candidate_pool ''breakfast'' diet) (dc * 0.25) b \<and>
     first_nearest (candidate_pool ''lunch'' diet) (dc * 0.35) l \<and>
     first_nearest (candidate_pool ''dinner'' diet) (dc * 0.30) dn \<and>
     first_nearest (candidate_pool ''snacks'' diet) (dc * 0.10) s"
proof -
  have slots: "''breakfast'' \<in> set meal_slots" "''lunch'' \<in> set meal_slots"
    "''dinner'' \<in> set meal_slots" "''snacks'' \<in> set meal_slots"
    by (simp_all add: meal_slots_def)
  obtain b where b: "select_meal ''breakfast'' diet (dc * 0.25) = Inr (Some b)"
      "first_nearest (candidate_pool ''breakfast'' diet) (dc * 0.25) b"
    using select_meal_recognized[OF slots(1) assms] by blast
  obtain l where l: "select_meal ''lunch'' diet (dc * 0.35) = Inr (Some l)"
      "first_nearest (candidate_pool ''lunch'' diet) (dc * 0.35) l"
    using select_meal_recognized[OF slots(2) assms] by blast
  obtain dn where dn: "select_meal ''dinner'' diet (dc * 0.30) = Inr (Some dn)"
      "first_nearest (candidate_pool ''dinner'' diet) (dc * 0.30) dn"
    using select_meal_recognized[OF slots(3) assms] by blast
  obtain s where s: "select_meal ''snacks'' diet (dc * 0.10) = Inr (Some s)"
      "first_nearest (candidate_pool ''snacks'' diet) (dc * 0.10) s"
    using select_meal_recognized[OF slots(4) assms] by blast
  have "build_day diet dc today d =
       Inr \<lparr>day = d, date = today,
            total_calories = calories b + calories l + calories dn + calories s,
            total_protein = protein b + protein l + protein dn + protein s,
            total_carbs = carbs b + carbs l + carbs dn + carbs s,
            total_fat = fat b + fat l + fat dn + fat s,
            meals = [(''Breakfast'', b), (''Lunch'', l), (''Dinner'', dn), (''Snacks'', s)]\<rparr>"
    unfolding build_day_def by (simp only: b(1) l(1) dn(1) s(1)) (simp add: add_meal_def)
  with b(2) l(2) dn(2) s(2) show ?thesis by blast
qed

lemma build_day_unrecognized:
  assumes "diet \<notin> set recognized_diets"
  shows "build_day diet dc today d =
       Inr \<lparr>day = d, date = today, total_calories = 0, total_protein = 0,
            total_carbs = 0, total_fat = 0, meals = []\<rparr>"
proof -
  have slots: "''breakfast'' \<in> set meal_slots" "''lunch'' \<in> set meal_slots"
    "''dinner'' \<in> set meal_slots" "''snacks'' \<in> set meal_slots"
    by (simp_all add: meal_slots_def)
  show ?thesis
    unfolding build_day_def
    by (simp add: select_meal_unrecognized[OF _ assms] slots add_meal_def)
qed

lemma for_each_all:
  assumes "\<forall>x \<in> set xs. \<exists>y. f x = Inr y \<and> P y"
  shows "\<exists>ys. for_each f xs = Inr ys \<and> length ys = length xs \<and> (\<forall>y \<in> set ys. P y)"
  using assms
proof (induction xs)
  case Nil
  then show ?case by simp
next
  case (Cons x xs)
  then obtain y where y: "f x = Inr y" "P y" by auto
  from Cons obtain ys where ys: "for_each f xs = Inr ys" "length ys = length xs" "\<forall>y \<in> set ys. P y"
    by auto
  show ?case using y ys by simp
qed


lemma generate_recognized:
  assumes "lower diet_preference \<in> set recognized_diets"
  shows "\<exists>plan. generate_meal_plan diet_preference calorie_target num_days goal today = Inr plan \<and>
     length plan = nat num_days \<and>
     (\<forall>d \<in> set plan. \<exists>b l dn s.
        meals d = [(''Breakfast'', b), (''Lunch'', l), (''Dinner'', dn), (''Snacks'', s)] \<and>
        total_calories d = calories b + calories l + calories dn + calories s \<and>
        total_protein d = protein b + protein l + protein dn + protein s \<and>
        total_carbs d = carbs b + carbs l + carbs dn + carbs s \<and>
        total_fat d = fat b + fat l + fat dn + fat s \<and>
        first_nearest (candidate_pool ''breakfast'' (lower diet_preference))
          (adjust_calories calorie_target goal * 0.25) b \<and>
        first_nearest (candidate_pool ''lunch'' (lower diet_preference))
          (adjust_calories calorie_target goal * 0.35) l \<and>
        first_nearest (candidate_pool ''dinner'' (lower diet_preference))
          (adjust_calories calorie_target goal * 0.30) dn \<and>
        first_nearest (candidate_pool ''snacks'' (lower diet_preference))
          (adjust_calories calorie_target goal * 0.10) s)"
proof -
  let ?dc = "adjust_calories calorie_target goal"
  let ?P = "\<lambda>d. \<exists>b l dn s.
        meals d = [(''Breakfast'', b), (''Lunch'', l), (''Dinner'', dn), (''Snacks'', s)] \<and>
        total_calories d = calories b + calories l + calories dn + calories s \<and>
        total_protein d = protein b + protein l + protein dn + protein s \<and>
        total_carbs d = carbs b + carbs l + carbs dn + carbs s \<and>
        total_fat d = fat b + fat l + fat dn + fat s \<and>
        first_nearest (candidate_pool ''breakfast'' (lower diet_preference)) (?dc * 0.25) b \<and>
        first_nearest (candidate_pool ''lunch'' (lower diet_preference)) (?dc * 0.35) l \<and>
        first_nearest (candidate_pool ''dinner'' (lower diet_preference)) (?dc * 0.30) dn \<and>
        first_nearest (candidate_pool ''snacks'' (lower diet_preference)) (?dc * 0.10) s"
  have step: "\<exists>y. build_day (lower diet_preference) ?dc today x = Inr y \<and> ?P y" for x
  proof -
    from build_day_recognized[OF assms, of ?dc today x]
    obtain b l dn s where r: "build_day (lower diet_preference) ?dc today x =
       Inr \<lparr>day = x, date = today,
            total_calories = calories b + calories l + calories dn + calories s,
            total_protein = protein b + protein l + protein dn + protein s,
            total_carbs = carbs b + carbs l + carbs dn + carbs s,
            total_fat = fat b + fat l + fat dn + fat s,
            meals = [(''Breakfast'', b), (''Lunch'', l), (''Dinner'', dn), (''Snacks'', s)]\<rparr>"
      "first_nearest (candidate_pool ''breakfast'' (lower diet_preference)) (?dc * 0.25) b"
      "first_nearest (candidate_pool ''lunch'' (lower diet_preference)) (?dc * 0.35) l"
      "first_nearest (candidate_pool ''dinner'' (lower diet_preference)) (?dc * 0.30) dn"
      "first_nearest (candidate_pool ''snacks'' (lower diet_preference)) (?dc * 0.10) s"
      by blast
    show ?thesis
      apply (rule exI, rule conjI, rule r(1))
      apply (rule exI[of _ b], rule exI[of _ l], rule exI[of _ dn], rule exI[of _ s])
      using r(2-5) by simp
  qed
  have "\<exists>ys. for_each (build_day (lower diet_preference) ?dc today) [1..num_days] = Inr ys \<and>
          length ys = length [1..num_days] \<and> (\<forall>y \<in> set ys. ?P y)"
    by (rule for_each_all) (use step in blast)
  then show ?thesis
    unfolding generate_meal_plan_def by simp
qed

lemma generate_unrecognized:
  assumes "lower diet_preference \<notin> set recognized_diets"
  shows "\<exists>plan. generate_meal_plan diet_preference calorie_target num_days goal today = Inr plan \<and>
     length plan = nat num_days \<and>
     (\<forall>d \<in> set plan. meals d = [] \<and> total_calories d = 0 \<and> total_protein d = 0 \<and>
        total_carbs d = 0 \<and> total_fat d = 0)"
proof -
  let ?dc = "adjust_calories calorie_target goal"
  let ?P = "\<lambda>d. meals d = [] \<and> total_calories d = 0 \<and> total_protein d = 0 \<and>
        total_carbs d = 0 \<and> total_fat d = 0"
  have step: "\<exists>y. build_day (lower diet_preference) ?dc today x = Inr y \<and> ?P y" for x
    by (simp add: build_day_unrecognized[OF assms])
  have "\<exists>ys. for_each (build_day (lower diet_preference) ?dc today) [1..num_days] = Inr ys \<and>
          length ys = length [1..num_days] \<and> (\<forall>y \<in> set ys. ?P y)"
    by (rule for_each_all) (use step in blast)
  then show ?thesis
    unfolding generate_meal_plan_def by simp
qed





text \<open>
  Claim C10. For a recognized diet preference every slot's candidate pool is non-empty, and
  for positive \<open>num_days\<close> the plan has exactly \<open>num_days\<close> day entries, each with 4 meals and
  with totals equal to the sums of the 4 selected items' macros. For an unrecognized diet
  preference the generator does not fail: it returns day entries with no meals and all-zero
  totals.
\<close>

theorem meal_plan_shape:
  "(lower diet_preference \<in> set recognized_diets \<longrightarrow>
      (\<forall>slot \<in> set meal_slots. candidate_pool slot (lower diet_preference) \<noteq> []) \<and>
      (0 < num_days \<longrightarrow>
        (\<exists>plan. generate_meal_plan diet_preference calorie_target num_days goal today = Inr plan \<and>
           int (length plan) = num_days \<and>
           (\<forall>d \<in> set plan.
              length (meals d) = 4 \<and>
              total_calories d = sum_list (map (\<lambda>m. calories (snd m)) (meals d)) \<and>
              total_protein d = sum_list (map (\<lambda>m. protein (snd m)) (meals d)) \<and>
              total_carbs d = sum_list (map (\<lambda>m. carbs (snd m)) (meals d)) \<and>
              total_fat d = sum_list (map (\<lambda>m. fat (snd m)) (meals d)))))) \<and>
   (lower diet_preference \<notin> set recognized_diets \<longrightarrow>
      (\<exists>plan. generate_meal_plan diet_preference calorie_target num_days goal today = Inr plan \<and>
         length plan = nat num_days \<and>
         (\<forall>d \<in> set plan. meals d = [] \<and> total_calories d = 0 \<and> total_protein d = 0 \<and>
            total_carbs d = 0 \<and> total_fat d = 0)))"
proof (intro conjI impI)
  assume r: "lower diet_preference \<in> set recognized_diets"
  show "\<forall>slot \<in> set meal_slots. candidate_pool slot (lower diet_preference) \<noteq> []"
    using candidate_pool_nonempty[OF _ r] by blast
next
  assume r: "lower diet_preference \<in> set recognized_diets" and n: "0 < num_days"
  from generate_recognized[OF r, of calorie_target num_days goal today]
  obtain plan where plan:
    "generate_meal_plan diet_preference calorie_target num_days goal today = Inr plan"
    "length plan = nat num_days"
    "\<forall>d \<in> set plan. \<exists>b l dn s.
        meals d = [(''Breakfast'', b), (''Lunch'', l), (''Dinner'', dn), (''Snacks'', s)] \<and>
        total_calories d = calories b + calories l + calories dn + calories s \<and>
        total_protein d = protein b + protein l + protein dn + protein s \<and>
        total_carbs d = carbs b + carbs l + carbs dn + carbs s \<and>
        total_fat d = fat b + fat l + fat dn + fat s \<and>
        first_nearest (candidate_pool ''breakfast'' (lower diet_preference))
          (adjust_calories calorie_target goal * 0.25) b \<and>
        first_nearest (candidate_pool ''lunch'' (lower diet_preference))
          (adjust_calories calorie_target goal * 0.35) l \<and>
        first_nearest (candidate_pool ''dinner'' (lower diet_preference))
          (adjust_calories calorie_target goal * 0.30) dn \<and>
        first_nearest (candidate_pool ''snacks'' (lower diet_preference))
          (adjust_calories calorie_target goal * 0.10) s"
    by blast
  have "\<forall>d \<in> set plan.
              length (meals d) = 4 \<and>
              total_calories d = sum_list (map (\<lambda>m. calories (snd m)) (meals d)) \<and>
              total_protein d = sum_list (map (\<lambda>m. protein (snd m)) (meals d)) \<and>
              total_carbs d = sum_list (map (\<lambda>m. carbs (snd m)) (meals d)) \<and>
              total_fat d = sum_list (map (\<lambda>m. fat (snd m)) (meals d))"
  proof
    fix d assume "d \<in> set plan"
    with plan(3) obtain b l dn s where
      "meals d = [(''Breakfast'', b), (''Lunch'', l), (''Dinner'', dn), (''Snacks'', s)]"
      "total_calories d = calories b + calories l + calories dn + calories s"
      "total_protein d = protein b + protein l + protein dn + protein s"
      "total_carbs d = carbs b + carbs l + carbs dn + carbs s"
      "total_fat d = fat b + fat l + fat dn + fat s"
      by blast
    then show "length (meals d) = 4 \<and>
              total_calories d = sum_list (map (\<lambda>m. calories (snd m)) (meals d)) \<and>
              total_protein d = sum_list (map (\<lambda>m. protein (snd m)) (meals d)) \<and>
              total_carbs d = sum_list (map (\<lambda>m. carbs (snd m)) (meals d)) \<and>
              total_fat d = sum_list (map (\<lambda>m. fat (snd m)) (meals d))"
      by simp
  qed
  with plan(1,2) n
  show "\<exists>plan. generate_meal_plan diet_preference calorie_target num_days goal today = Inr plan \<and>
           int (length plan) = num_days \<and>
           (\<forall>d \<in> set plan.
              length (meals d) = 4 \<and>
              total_calories d = sum_list (map (\<lambda>m. calories (snd m)) (meals d)) \<and>
              total_protein d = sum_list (map (\<lambda>m. protein (snd m)) (meals d)) \<and>
              total_carbs d = sum_list (map (\<lambda>m. carbs (snd m)) (meals d)) \<and>
              total_fat d = sum_list (map (\<lambda>m. fat (snd m)) (meals d)))"
    by auto
next
  assume "lower diet_preference \<notin> set recognized_diets"
  then show "\<exists>plan. generate_meal_plan diet_preference calorie_target num_days goal today = Inr plan \<and>
         length plan = nat num_days \<and>
         (\<forall>d \<in> set plan. meals d = [] \<and> total_calories d = 0 \<and> total_protein d = 0 \<and>
            total_carbs d = 0 \<and> total_fat d = 0)"
    by (rule generate_unrecognized)
qed

theorem meal_plan_shape_witness:
  "lower ''Vegan'' \<in> set recognized_diets \<and> (0::int) < 3 \<and>
   (\<exists>plan. generate_meal_plan ''Vegan'' 2200 3 ''Muscle Gain'' ''2024-01-01'' = Inr plan \<and>
      int (length plan) = 3 \<and> (\<forall>d \<in> set plan. length (meals d) = 4)) \<and>
   lower ''Keto'' \<notin> set recognized_diets \<and>
   (\<exists>plan. generate_meal_plan ''Keto'' 2200 3 ''Muscle Gain'' ''2024-01-01'' = Inr plan \<and>
      length plan = 3 \<and> (\<forall>d \<in> set plan. meals d = []))"
proof -
  have h1: "lower ''Vegan'' \<in> set recognized_diets"
    by (simp add: recognized_diets_def lower_def lower_char_def)
  have h2: "lower ''Keto'' \<notin> set recognized_diets"
    by (simp add: recognized_diets_def lower_def lower_char_def)
  have h3: "(0::int) < 3" by simp
  note i1 = meal_plan_shape[where diet_preference = "''Vegan''" and calorie_target = 2200
      and num_days = 3 and goal = "''Muscle Gain''" and today = "''2024-01-01''"]
  note i2 = meal_plan_shape[where diet_preference = "''Keto''" and calorie_target = 2200
      and num_days = 3 and goal = "''Muscle Gain''" and today = "''2024-01-01''"]
  from conjunct2[OF conjunct1[OF i1, rule_format, OF h1], rule_format, OF h3]
  obtain plan where p: "generate_meal_plan ''Vegan'' 2200 3 ''Muscle Gain'' ''2024-01-01'' = Inr plan"
    "int (length plan) = 3" "\<forall>d \<in> set plan. length (meals d) = 4"
    by blast
  from conjunct2[OF i2, rule_format, OF h2]
  obtain plan' where q: "generate_meal_plan ''Keto'' 2200 3 ''Muscle Gain'' ''2024-01-01'' = Inr plan'"
    "length plan' = nat 3" "\<forall>d \<in> set plan'. meals d = []"
    by blast
  have a: "\<exists>plan. generate_meal_plan ''Vegan'' 2200 3 ''Muscle Gain'' ''2024-01-01'' = Inr plan \<and>
      int (length plan) = 3 \<and> (\<forall>d \<in> set plan. length (meals d) = 4)"
    using p by (intro exI conjI)
  have b: "\<exists>plan. generate_meal_plan ''Keto'' 2200 3 ''Muscle Gain'' ''2024-01-01'' = Inr plan \<and>
      length plan = 3 \<and> (\<forall>d \<in> set plan. meals d = [])"
    using q by (intro exI[of _ plan'] conjI) simp_all
  from h1 h3 a h2 b show ?thesis by (intro conjI)
qed

section \<open>Properties of the workout generator\<close>

lemma update_take_mset:
  assumes "j < length pool"
  shows "add_mset (pool ! j) (mset (take (length pool - 1) (pool[j := pool ! (length pool - 1)]))) = mset pool"
proof (cases pool rule: rev_cases)
  case Nil
  with assms show ?thesis by simp
next
  case (snoc ys y)
  show ?thesis
  proof (cases "j = length ys")
    case True
    then show ?thesis using snoc by simp
  next
    case False
    with assms snoc have j: "j < length ys" by simp
    then have "pool[j := pool ! (length pool - 1)] = ys[j := y] @ [y]"
      using snoc by (simp add: list_update_append)
    then have "take (length pool - 1) (pool[j := pool ! (length pool - 1)]) = ys[j := y]"
      using snoc by simp
    moreover have "pool ! j = ys ! j" using snoc j by (simp add: nth_append)
    moreover have "add_mset (ys ! j) (mset (ys[j := y])) = add_mset y (mset ys)"
      using j by (simp add: mset_update)
    ultimately show ?thesis using snoc by simp
  qed
qed

lemma sample_loop_props:
  "k \<le> length pool \<Longrightarrow>
     length (fst (sample_loop g pool k)) = k \<and> mset (fst (sample_loop g pool k)) \<subseteq># mset pool"
proof (induction k arbitrary: g pool)
  case 0
  then show ?case by simp
next
  case (Suc k)
  let ?m = "length pool"
  let ?j = "g 0 mod ?m"
  let ?pool' = "take (?m - 1) (pool[?j := pool ! (?m - 1)])"
  let ?g1 = "\<lambda>i. g (Suc i)"
  from Suc.prems have m: "0 < ?m" by (cases pool) simp_all
  then have j: "?j < ?m" by simp
  have len': "k \<le> length ?pool'" using Suc.prems by simp
  note ih = Suc.IH[OF len', of ?g1]
  have unfold: "fst (sample_loop g pool (Suc k)) = pool ! ?j # fst (sample_loop ?g1 ?pool' k)"
    by (simp add: randbelow_def Let_def split: prod.splits)
  have "mset (pool ! ?j # fst (sample_loop ?g1 ?pool' k)) \<subseteq># add_mset (pool ! ?j) (mset ?pool')"
    using ih by simp
  also have "\<dots> = mset pool" by (rule update_take_mset[OF j])
  finally show ?case using ih unfold by simp
qed


lemma random_sample_ok:
  assumes "0 \<le> k" and "k \<le> int (length pool)"
  shows "\<exists>xs g'. random_sample g pool k = Inr (xs, g') \<and> length xs = nat k \<and>
           mset xs \<subseteq># mset pool"
proof -
  have le: "nat k \<le> length pool" using assms by linarith
  obtain xs g' where r: "sample_loop g pool (nat k) = (xs, g')"
    by (cases "sample_loop g pool (nat k)")
  with sample_loop_props[OF le, of g] have "length xs = nat k" "mset xs \<subseteq># mset pool"
    by simp_all
  with r assms show ?thesis by (simp add: random_sample_def)
qed

lemma pool_lookup:
  assumes "location \<in> set valid_locations" and "category \<in> set [''strength'', ''cardio'']"
    and "level \<in> set valid_levels"
  shows "\<exists>pool. exercise_pool_of location category level = Inr pool \<and> pool \<in> set all_pools"
  using assms
  by (auto simp: valid_locations_def valid_levels_def exercise_pool_of_def subscript_def
      exercises_db_def all_pools_def)

lemma strength_pool_size:
  assumes "location \<in> set valid_locations" and "level \<in> set valid_levels"
    and "exercise_pool_of location ''strength'' level = Inr pool"
  shows "3 \<le> length pool"
  using assms
  by (auto simp: valid_locations_def valid_levels_def exercise_pool_of_def subscript_def
      exercises_db_def home_strength_beginner_def home_strength_intermediate_def
      home_strength_advanced_def gym_strength_beginner_def gym_strength_intermediate_def
      gym_strength_advanced_def)

lemma cardio_pool_size:
  assumes "location \<in> set valid_locations" and "level \<in> set valid_levels"
    and "exercise_pool_of location ''cardio'' level = Inr pool"
  shows "2 \<le> length pool"
  using assms
  by (auto simp: valid_locations_def valid_levels_def exercise_pool_of_def subscript_def
      exercises_db_def home_cardio_beginner_def home_cardio_intermediate_def
      home_cardio_advanced_def gym_cardio_beginner_def gym_cardio_intermediate_def
      gym_cardio_advanced_def)

lemma distinct_by_name: "distinct (map ex_name xs) \<Longrightarrow> distinct xs"
  by (rule distinct_map[THEN iffD1, THEN conjunct1])

lemma all_pools_distinct: "p \<in> set all_pools \<Longrightarrow> distinct p"
  unfolding all_pools_def
  by (auto intro!: distinct_by_name
      simp: mk_exercise_def home_strength_beginner_def home_strength_intermediate_def
      home_strength_advanced_def gym_strength_beginner_def gym_strength_intermediate_def
      gym_strength_advanced_def home_cardio_beginner_def home_cardio_intermediate_def
      home_cardio_advanced_def gym_cardio_beginner_def gym_cardio_intermediate_def
      gym_cardio_advanced_def)

lemma mset_subset_same_size:
  assumes "A \<subseteq># B" and "size A = size B"
  shows "A = B"
proof -
  from assms(1) obtain C where C: "B = A + C" by (auto simp: mset_subset_eq_exists_conv)
  with assms(2) have "C = {#}" by simp
  with C show ?thesis by simp
qed

lemma generate_from_pool:
  assumes "choose_pool g (lower location) workout_type (lower level) = Inr (pool, g1)"
  shows "\<exists>plan g2. generate_workout g location workout_type level duration_minutes today = Inr (plan, g2) \<and>
           int (length (exercises plan)) = min (int (length pool)) (max 4 (duration_minutes div 10)) \<and>
           mset (exercises plan) \<subseteq># mset pool \<and>
           warmup plan = get_warmup \<and> cooldown plan = get_cooldown"
proof -
  let ?n = "min (int (length pool)) (max 4 (duration_minutes div 10))"
  have k: "0 \<le> min ?n (int (length pool))" "min ?n (int (length pool)) \<le> int (length pool)"
    by simp_all
  from random_sample_ok[OF k, of g1]
  obtain xs g2 where xs: "random_sample g1 pool (min ?n (int (length pool))) = Inr (xs, g2)"
    "length xs = nat (min ?n (int (length pool)))" "mset xs \<subseteq># mset pool"
    by blast
  have "0 \<le> ?n" by simp
  then have "int (length xs) = ?n" using xs(2) by linarith
  with xs(1,3) assms show ?thesis
    by (simp add: generate_workout_def Let_def)
qed

lemma choose_pool_plain:
  assumes "location \<in> set valid_locations" and "level \<in> set valid_levels"
    and "workout_type \<in> set [''Strength Training'', ''Cardio'', ''HIIT'']"
  shows "\<exists>pool. exercise_pool_of location (category_of workout_type) level = Inr pool \<and>
           choose_pool g location workout_type level = Inr (pool, g) \<and> pool \<in> set all_pools"
proof -
  have cat: "category_of workout_type \<in> set [''strength'', ''cardio'']"
    by (simp add: category_of_def)
  from pool_lookup[OF assms(1) cat assms(2)]
  obtain pool where pool: "exercise_pool_of location (category_of workout_type) level = Inr pool"
    "pool \<in> set all_pools" by blast
  have "choose_pool g location workout_type level = Inr (pool, g)"
    using assms(3) pool(1) by (auto simp: choose_pool_def category_of_def)
  with pool show ?thesis by blast
qed

lemma choose_pool_total:
  assumes "location \<in> set valid_locations" and "level \<in> set valid_levels"
  shows "\<exists>pool g1. choose_pool g location workout_type level = Inr (pool, g1)"
proof (cases "workout_type \<in> set [''Strength Training'', ''Cardio'', ''HIIT'']")
  case True
  from choose_pool_plain[OF assms True, of g] show ?thesis by blast
next
  case False
  have c1: "''strength'' \<in> set [''strength'', ''cardio'']" by simp
  have c2: "''cardio'' \<in> set [''strength'', ''cardio'']" by simp
  from pool_lookup[OF assms(1) c1 assms(2)]
  obtain sp where sp: "exercise_pool_of location ''strength'' level = Inr sp" by blast
  from pool_lookup[OF assms(1) c2 assms(2)]
  obtain cp where cp: "exercise_pool_of location ''cardio'' level = Inr cp" by blast
  have "(3::int) \<le> int (length sp)" using strength_pool_size[OF assms sp] by simp
  from random_sample_ok[OF _ this, of g]
  obtain s g1 where s: "random_sample g sp 3 = Inr (s, g1)" by auto
  have "(2::int) \<le> int (length cp)" using cardio_pool_size[OF assms cp] by simp
  from random_sample_ok[OF _ this, of g1]
  obtain c g2 where c: "random_sample g1 cp 2 = Inr (c, g2)" by auto
  have "choose_pool g location workout_type level = Inr (s @ c, g2)"
    using False sp cp s c by (simp add: choose_pool_def)
  then show ?thesis by blast
qed


lemma distinct_sub_mset:
  assumes "mset xs \<subseteq># mset ys" and "distinct ys"
  shows "distinct xs"
proof -
  have "count (mset xs) a = (if a \<in> set xs then 1 else 0)" for a
  proof (cases "a \<in> set xs")
    case True
    then have "0 < count (mset xs) a" by (simp only: count_greater_zero_iff set_mset_mset)
    moreover have "count (mset xs) a \<le> count (mset ys) a"
      using assms(1) by (rule mset_subset_eq_count)
    moreover have "count (mset ys) a \<le> 1"
      using assms(2) by (simp add: distinct_count_atmost_1)
    ultimately have "count (mset xs) a = 1" by linarith
    with True show ?thesis by (simp only: if_True)
  next
    case False
    then show ?thesis by (simp add: count_mset_0_iff)
  qed
  then show ?thesis by (simp add: distinct_count_atmost_1)
qed

text \<open>
  Claim C3, as amended. For a valid location and level (after \<^verbatim>\<open>lower()\<close>) and the workout
  types "Strength Training", "Cardio" and "HIIT", the types that have a pool in the table,
  whatever the random generator yields, the main exercise list has exactly
  \<open>min(pool size, max(4, duration_minutes // 10))\<close> entries, they are pairwise distinct
  elements of the looked-up pool, and they are the whole pool when the pool is not larger
  than the target count. For every workout type the generated workout has a warmup list of
  4 items and a cooldown list of 5 items.
\<close>

theorem workout_exercise_count:
  assumes "lower location \<in> set valid_locations" and "lower level \<in> set valid_levels"
  shows "(workout_type \<in> set [''Strength Training'', ''Cardio'', ''HIIT''] \<longrightarrow>
           (\<exists>pool plan g'.
              exercise_pool_of (lower location) (category_of workout_type) (lower level) = Inr pool \<and>
              generate_workout g location workout_type level duration_minutes today = Inr (plan, g') \<and>
              int (length (exercises plan)) =
                 min (int (length pool)) (max 4 (duration_minutes div 10)) \<and>
              distinct (exercises plan) \<and>
              set (exercises plan) \<subseteq> set pool \<and>
              (int (length pool) \<le> max 4 (duration_minutes div 10) \<longrightarrow>
                 mset (exercises plan) = mset pool))) \<and>
         (\<exists>plan g'. generate_workout g location workout_type level duration_minutes today = Inr (plan, g') \<and>
              length (warmup plan) = 4 \<and> length (cooldown plan) = 5)"
proof (intro conjI impI)
  assume wt: "workout_type \<in> set [''Strength Training'', ''Cardio'', ''HIIT'']"
  from choose_pool_plain[OF assms wt, of g]
  obtain pool where pool:
    "exercise_pool_of (lower location) (category_of workout_type) (lower level) = Inr pool"
    "choose_pool g (lower location) workout_type (lower level) = Inr (pool, g)"
    "pool \<in> set all_pools" by blast
  from generate_from_pool[OF pool(2), of duration_minutes today]
  obtain plan g2 where plan:
    "generate_workout g location workout_type level duration_minutes today = Inr (plan, g2)"
    "int (length (exercises plan)) = min (int (length pool)) (max 4 (duration_minutes div 10))"
    "mset (exercises plan) \<subseteq># mset pool" by blast
  have d: "distinct pool" using pool(3) by (rule all_pools_distinct)
  have dist: "distinct (exercises plan)"
    using plan(3) d by (rule distinct_sub_mset)
  have sub: "set (exercises plan) \<subseteq> set pool"
    using set_mset_mono[OF plan(3)] by simp
  have full: "mset (exercises plan) = mset pool"
    if "int (length pool) \<le> max 4 (duration_minutes div 10)"
  proof -
    from that plan(2) have "length (exercises plan) = length pool" by simp
    then have "size (mset (exercises plan)) = size (mset pool)" by simp
    from mset_subset_same_size[OF plan(3) this] show ?thesis .
  qed
  from pool(1) plan(1,2) dist sub full
  show "\<exists>pool plan g'.
              exercise_pool_of (lower location) (category_of workout_type) (lower level) = Inr pool \<and>
              generate_workout g location workout_type level duration_minutes today = Inr (plan, g') \<and>
              int (length (exercises plan)) =
                 min (int (length pool)) (max 4 (duration_minutes div 10)) \<and>
              distinct (exercises plan) \<and>
              set (exercises plan) \<subseteq> set pool \<and>
              (int (length pool) \<le> max 4 (duration_minutes div 10) \<longrightarrow>
                 mset (exercises plan) = mset pool)"
    by blast
next
  from choose_pool_total[OF assms, of g workout_type]
  obtain pool g1 where "choose_pool g (lower location) workout_type (lower level) = Inr (pool, g1)"
    by blast
  from generate_from_pool[OF this, of duration_minutes today]
  obtain plan g2 where
    "generate_workout g location workout_type level duration_minutes today = Inr (plan, g2)"
    "warmup plan = get_warmup" "cooldown plan = get_cooldown" by blast
  then show "\<exists>plan g'. generate_workout g location workout_type level duration_minutes today = Inr (plan, g') \<and>
              length (warmup plan) = 4 \<and> length (cooldown plan) = 5"
    by (simp add: get_warmup_def get_cooldown_def)
qed


theorem workout_exercise_count_witness:
  "lower ''Home'' \<in> set valid_locations \<and> lower ''Beginner'' \<in> set valid_levels \<and>
   ''Strength Training'' \<in> set [''Strength Training'', ''Cardio'', ''HIIT''] \<and>
   exercise_pool_of (lower ''Home'') (category_of ''Strength Training'') (lower ''Beginner'') =
      Inr home_strength_beginner \<and>
   (\<exists>plan g'. generate_workout (\<lambda>i. 3 * i + 1) ''Home'' ''Strength Training'' ''Beginner'' 45
                  ''2024-01-01'' = Inr (plan, g') \<and>
      length (exercises plan) = 4 \<and> distinct (exercises plan) \<and>
      set (exercises plan) \<subseteq> set home_strength_beginner \<and>
      length (warmup plan) = 4 \<and> length (cooldown plan) = 5)"
proof -
  have h1: "lower ''Home'' \<in> set valid_locations"
    by (simp add: valid_locations_def lower_def lower_char_def)
  have h2: "lower ''Beginner'' \<in> set valid_levels"
    by (simp add: valid_levels_def lower_def lower_char_def)
  have h3: "''Strength Training'' \<in> set [''Strength Training'', ''Cardio'', ''HIIT'']"
    by simp
  have look: "exercise_pool_of (lower ''Home'') (category_of ''Strength Training'') (lower ''Beginner'') =
      Inr home_strength_beginner"
    by (simp add: exercise_pool_of_def subscript_def exercises_db_def category_of_def
        lower_def lower_char_def)
  have len: "int (length home_strength_beginner) = 8"
    by (simp add: home_strength_beginner_def)
  note inst = workout_exercise_count[OF h1 h2, where workout_type = "''Strength Training''"
      and g = "\<lambda>i. 3 * i + 1" and duration_minutes = 45 and today = "''2024-01-01''"]
  from conjunct1[OF inst, rule_format, OF h3]
  obtain pool plan g' where r:
    "exercise_pool_of (lower ''Home'') (category_of ''Strength Training'') (lower ''Beginner'') = Inr pool"
    "generate_workout (\<lambda>i. 3 * i + 1) ''Home'' ''Strength Training'' ''Beginner'' 45 ''2024-01-01''
       = Inr (plan, g')"
    "int (length (exercises plan)) = min (int (length pool)) (max 4 (45 div 10))"
    "distinct (exercises plan)" "set (exercises plan) \<subseteq> set pool"
    by blast
  from r(1) look have p: "pool = home_strength_beginner" by simp
  from r(3) have l: "length (exercises plan) = 4" unfolding p len by simp
  from conjunct2[OF inst]
  obtain plan2 g2 where q:
    "generate_workout (\<lambda>i. 3 * i + 1) ''Home'' ''Strength Training'' ''Beginner'' 45 ''2024-01-01''
       = Inr (plan2, g2)"
    "length (warmup plan2) = 4" "length (cooldown plan2) = 5"
    by blast
  from q(1) r(1,2) have "plan2 = plan" by simp
  with q(2,3) have w: "length (warmup plan) = 4" "length (cooldown plan) = 5" by simp_all
  have "\<exists>plan g'. generate_workout (\<lambda>i. 3 * i + 1) ''Home'' ''Strength Training'' ''Beginner'' 45
                  ''2024-01-01'' = Inr (plan, g') \<and>
      length (exercises plan) = 4 \<and> distinct (exercises plan) \<and>
      set (exercises plan) \<subseteq> set home_strength_beginner \<and>
      length (warmup plan) = 4 \<and> length (cooldown plan) = 5"
    using r(2) l r(4) r(5)[unfolded p] w by blast
  with h1 h2 h3 look show ?thesis by (intro conjI)
qed

text \<open>
  Claim C3 as it was stated speaks of every workout type other than "Mixed". The type "Yoga"
  (like "Flexibility" and any other string) has no pool in the table and takes the
  \<^verbatim>\<open>else\<close> branch: the list is drawn from 3 sampled strength exercises and 2 sampled cardio
  exercises. At home, intermediate, 50 minutes, it has 5 entries, more than the 4 of the
  cardio pool, one of them ("Box Jumps") outside the strength pool and one ("Diamond
  Push-ups") outside the cardio pool, and the name "Burpees" comes twice.
\<close>

theorem workout_yoga_counterexample:
  "''Yoga'' \<noteq> ''Mixed'' \<and>
   (case generate_workout (\<lambda>i. 0) ''Home'' ''Yoga'' ''Intermediate'' 50 ''2024-01-01'' of
      Inl e \<Rightarrow> []
    | Inr (plan, g') \<Rightarrow> map ex_name (exercises plan)) =
     [''Diamond Push-ups'', ''Box Jumps'', ''Burpees'', ''Single Leg Deadlift'', ''Burpees''] \<and>
   map ex_name home_cardio_intermediate =
     [''Burpees'', ''Mountain Climbers'', ''Jump Rope'', ''Box Jumps''] \<and>
   ''Box Jumps'' \<notin> set (map ex_name home_strength_intermediate)"
  by code_simp

section \<open>Properties of the percent-to-goal computation and of the body-fat predictor\<close>

lemma clamp_cases:
  "\<exists>r. py_max (Fin lo) (py_min (Fin hi) x) = Fin r \<and> (lo \<le> hi \<longrightarrow> lo \<le> r \<and> r \<le> hi)"
  by (cases x) (auto simp: py_max_def py_min_def)

lemma clamp_fin:
  "py_max (Fin lo) (py_min (Fin hi) (Fin x)) = Fin (if x < hi then (if lo < x then x else lo) else (if lo < hi then hi else lo))"
  by (auto simp: py_max_def py_min_def)

lemma pp_range:
  "\<exists>p. progress_percentage s c g = Fin p \<and> 0 \<le> p \<and> p \<le> 100"
  unfolding progress_percentage_def Let_def
  using clamp_cases[of 0 100] by fastforce

lemma pp_eq:
  assumes "get_or g s \<noteq> s"
  shows "progress_percentage s c g = Fin (spec_percent_to_goal s c (get_or g s))"
  using assms
  by (auto simp: progress_percentage_def spec_percent_to_goal_def clamp_def Let_def clamp_fin max_def min_def)

lemma pp_zero:
  assumes "get_or g s = s"
  shows "progress_percentage s c g = Fin 100"
  using assms
  by (auto simp: progress_percentage_def Let_def py_max_def py_min_def)


text \<open>
  Claim C6. For every non-empty progress history and every goal weight the reported
  percentage is a number in \<open>[0, 100]\<close>, also when the current weight overshoots the goal in
  either direction. When the goal differs from the starting weight it equals the
  specification's \<open>clamp(0, 100, (start - current) / (start - goal) * 100)\<close> for
  \<open>goal < start\<close> and \<open>clamp(0, 100, |start - current| / (goal - start) * 100)\<close> otherwise. When
  the goal equals the starting weight the quotient has a zero divisor; numpy yields an
  infinity or a NaN there and the two built-ins \<^verbatim>\<open>min\<close> and \<^verbatim>\<open>max\<close> turn it into 100.
\<close>

theorem percent_to_goal_clamped:
  assumes "weights \<noteq> []"
  shows "\<exists>p. show_progress_percentage weights goal = Some (Fin p) \<and> 0 \<le> p \<and> p \<le> 100 \<and>
           (get_or goal (hd weights) \<noteq> hd weights \<longrightarrow>
              p = spec_percent_to_goal (hd weights) (last weights) (get_or goal (hd weights))) \<and>
           (get_or goal (hd weights) = hd weights \<longrightarrow> p = 100)"
proof -
  let ?s = "hd weights" and ?c = "last weights"
  obtain p where p: "progress_percentage ?s ?c goal = Fin p" "0 \<le> p" "p \<le> 100"
    using pp_range by blast
  have "p = spec_percent_to_goal ?s ?c (get_or goal ?s)" if "get_or goal ?s \<noteq> ?s"
    using pp_eq[OF that, of ?c] p(1) by simp
  moreover have "p = 100" if "get_or goal ?s = ?s"
    using pp_zero[OF that, of ?c] p(1) by simp
  ultimately show ?thesis
    using p assms by (simp add: show_progress_percentage_def)
qed

theorem percent_to_goal_clamped_witness:
  "[80, 78, 75] \<noteq> ([] :: real list) \<and>
   show_progress_percentage [80, 78, 75] (Some 70) = Some (Fin 50) \<and>
   show_progress_percentage [80, 78, 65] (Some 70) = Some (Fin 100) \<and>
   show_progress_percentage [80, 78, 85] (Some 70) = Some (Fin 0)"
proof -
  have h: "[80, 78, 75] \<noteq> ([] :: real list)" "[80, 78, 65] \<noteq> ([] :: real list)"
    "[80, 78, 85] \<noteq> ([] :: real list)" by simp_all
  have a: "show_progress_percentage [80, 78, 75] (Some 70) = Some (Fin 50)"
    using percent_to_goal_clamped[OF h(1), of "Some 70"]
    by (auto simp: get_or_def spec_percent_to_goal_def clamp_def)
  have b: "show_progress_percentage [80, 78, 65] (Some 70) = Some (Fin 100)"
    using percent_to_goal_clamped[OF h(2), of "Some 70"]
    by (auto simp: get_or_def spec_percent_to_goal_def clamp_def)
  have c: "show_progress_percentage [80, 78, 85] (Some 70) = Some (Fin 0)"
    using percent_to_goal_clamped[OF h(3), of "Some 70"]
    by (auto simp: get_or_def spec_percent_to_goal_def clamp_def)
  from h(1) a b c show ?thesis by (intro conjI)
qed

lemma log10_pow: "log 10 ((10::real) ^ n) = real n"
  by (simp add: log_nat_power)

lemma clamp_mono: "x \<le> y \<Longrightarrow> clamp lo hi x \<le> clamp lo hi y"
  by (auto simp: clamp_def max_def min_def)

lemma prediction_below_pole:
  assumes "0 < girth m" and "0 < get_or (height m) 170" and "0 < navy_denominator m"
  shows "empirical_prediction m = Fin (clamp 5 50 (495 / navy_denominator m - 450))"
proof (cases "is_male m")
  case True
  with assms have g: "0 < get_or (abdomen m) 85 - get_or (neck m) 37"
    by (simp add: girth_def)
  have d: "1.0324 - 0.19077 * log 10 (get_or (abdomen m) 85 - get_or (neck m) 37)
            + 0.15456 * log 10 (get_or (height m) 170) \<noteq> 0"
    using assms(3) True by (simp add: navy_denominator_def girth_def)
  show ?thesis
    using True g d assms(2)
    by (simp add: empirical_prediction_def navy_denominator_def girth_def is_male_def Let_def
        np_log10_def fsub_def clamp_fin clamp_def max_def min_def)
next
  case False
  with assms have g: "0 < get_or (abdomen m) 85 + get_or (hip m) 95 - get_or (neck m) 37"
    by (simp add: girth_def)
  have d: "1.29579 - 0.35004 * log 10 (get_or (abdomen m) 85 + get_or (hip m) 95 - get_or (neck m) 37)
            + 0.22100 * log 10 (get_or (height m) 170) \<noteq> 0"
    using assms(3) False by (simp add: navy_denominator_def girth_def)
  show ?thesis
    using False g d assms(2)
    by (simp add: empirical_prediction_def navy_denominator_def girth_def is_male_def Let_def
        np_log10_def fsub_def clamp_fin clamp_def max_def min_def)
qed

lemma quotient_antimono:
  fixes d d' :: real
  assumes "0 < d'" and "d' \<le> d"
  shows "495 / d - 450 \<le> 495 / d' - 450"
  using assms by (simp add: frac_le)

lemma girth_waist:
  "girth (m\<lparr>abdomen := Some w'\<rparr>) = girth m + (w' - get_or (abdomen m) 85)"
  by (simp add: girth_def is_male_def get_or_def)

lemma denominator_waist:
  assumes "0 < girth m" and "get_or (abdomen m) 85 \<le> w'"
  shows "navy_denominator (m\<lparr>abdomen := Some w'\<rparr>) \<le> navy_denominator m"
proof -
  have "girth m \<le> girth (m\<lparr>abdomen := Some w'\<rparr>)" using assms(2) by (simp add: girth_waist)
  then have "log 10 (girth m) \<le> log 10 (girth (m\<lparr>abdomen := Some w'\<rparr>))"
    using assms(1) by (simp add: log_mono)
  moreover have "is_male (m\<lparr>abdomen := Some w'\<rparr>) = is_male m" by (simp add: is_male_def)
  ultimately show ?thesis by (simp add: navy_denominator_def)
qed

lemma denominator_height:
  assumes "0 < get_or (height m) 170" and "get_or (height m) 170 \<le> h'"
  shows "navy_denominator m \<le> navy_denominator (m\<lparr>height := Some h'\<rparr>)"
proof -
  have "log 10 (get_or (height m) 170) \<le> log 10 h'"
    using assms by (simp add: log_mono)
  moreover have "is_male (m\<lparr>height := Some h'\<rparr>) = is_male m" by (simp add: is_male_def)
  moreover have "girth (m\<lparr>height := Some h'\<rparr>) = girth m" by (simp add: girth_def is_male_def)
  ultimately show ?thesis by (simp add: navy_denominator_def get_or_def)
qed

lemma waist_monotone:
  assumes "0 < girth m" and "0 < get_or (height m) 170" and "get_or (abdomen m) 85 \<le> w'"
    and "0 < navy_denominator (m\<lparr>abdomen := Some w'\<rparr>)"
  shows "\<exists>r r'. empirical_prediction m = Fin r \<and>
           empirical_prediction (m\<lparr>abdomen := Some w'\<rparr>) = Fin r' \<and> r \<le> r'"
proof -
  let ?m' = "m\<lparr>abdomen := Some w'\<rparr>"
  have le: "navy_denominator ?m' \<le> navy_denominator m"
    using assms(1,3) by (rule denominator_waist)
  then have pos: "0 < navy_denominator m" using assms(4) by simp
  have g': "0 < girth ?m'" using assms(1,3) by (simp add: girth_waist)
  have h': "0 < get_or (height ?m') 170" using assms(2) by simp
  have a: "empirical_prediction m = Fin (clamp 5 50 (495 / navy_denominator m - 450))"
    using assms(1,2) pos by (rule prediction_below_pole)
  have b: "empirical_prediction ?m' = Fin (clamp 5 50 (495 / navy_denominator ?m' - 450))"
    using g' h' assms(4) by (rule prediction_below_pole)
  have "clamp 5 50 (495 / navy_denominator m - 450) \<le> clamp 5 50 (495 / navy_denominator ?m' - 450)"
    by (rule clamp_mono, rule quotient_antimono[OF assms(4) le])
  with a b show ?thesis by blast
qed

lemma height_monotone:
  assumes "0 < girth m" and "0 < get_or (height m) 170" and "get_or (height m) 170 \<le> h'"
    and "0 < navy_denominator m"
  shows "\<exists>r r'. empirical_prediction m = Fin r \<and>
           empirical_prediction (m\<lparr>height := Some h'\<rparr>) = Fin r' \<and> r' \<le> r"
proof -
  let ?m' = "m\<lparr>height := Some h'\<rparr>"
  have le: "navy_denominator m \<le> navy_denominator ?m'"
    using assms(2,3) by (rule denominator_height)
  then have pos: "0 < navy_denominator ?m'" using assms(4) by simp
  have "girth ?m' = girth m" by (simp add: girth_def is_male_def)
  then have g': "0 < girth ?m'" using assms(1) by simp
  have h': "0 < get_or (height ?m') 170" using assms(2,3) by (simp add: get_or_def)
  have a: "empirical_prediction m = Fin (clamp 5 50 (495 / navy_denominator m - 450))"
    using assms(1,2,4) by (rule prediction_below_pole)
  have b: "empirical_prediction ?m' = Fin (clamp 5 50 (495 / navy_denominator ?m' - 450))"
    using g' h' pos by (rule prediction_below_pole)
  have "clamp 5 50 (495 / navy_denominator ?m' - 450) \<le> clamp 5 50 (495 / navy_denominator m - 450)"
    by (rule clamp_mono, rule quotient_antimono[OF assms(4) le])
  with a b show ?thesis by blast
qed


text \<open>
  Claim C4, as amended. For every measurement input the untrained prediction is a number in
  \<open>[5, 50]\<close>, and \<^const>\<open>predict\<close> of an untrained predictor is that prediction. For a positive
  height and a positive argument of the first logarithm, the prediction is non-decreasing in
  the waist (so in the waist-neck difference, with height, neck and hip held fixed) as long
  as the denominator of the formula is still positive at the larger waist, and non-increasing
  in the height (with waist, neck and hip held fixed) as long as the denominator is positive
  at the smaller height.
\<close>

theorem navy_prediction_range_and_monotone:
  "(\<exists>r. empirical_prediction m = Fin r \<and> 5 \<le> r \<and> r \<le> 50) \<and>
   (\<not> is_trained self \<longrightarrow> predict self m = empirical_prediction m) \<and>
   (0 < girth m \<and> 0 < get_or (height m) 170 \<and> get_or (abdomen m) 85 \<le> w' \<and>
      0 < navy_denominator (m\<lparr>abdomen := Some w'\<rparr>) \<longrightarrow>
      (\<exists>r r'. empirical_prediction m = Fin r \<and>
           empirical_prediction (m\<lparr>abdomen := Some w'\<rparr>) = Fin r' \<and> r \<le> r')) \<and>
   (0 < girth m \<and> 0 < get_or (height m) 170 \<and> get_or (height m) 170 \<le> h' \<and>
      0 < navy_denominator m \<longrightarrow>
      (\<exists>r r'. empirical_prediction m = Fin r \<and>
           empirical_prediction (m\<lparr>height := Some h'\<rparr>) = Fin r' \<and> r' \<le> r))"
proof (intro conjI impI)
  show "\<exists>r. empirical_prediction m = Fin r \<and> 5 \<le> r \<and> r \<le> 50"
    unfolding empirical_prediction_def Let_def using clamp_cases[of 5 50] by fastforce
next
  assume "\<not> is_trained self"
  then show "predict self m = empirical_prediction m" by (simp add: predict_def)
next
  assume "0 < girth m \<and> 0 < get_or (height m) 170 \<and> get_or (abdomen m) 85 \<le> w' \<and>
      0 < navy_denominator (m\<lparr>abdomen := Some w'\<rparr>)"
  then show "\<exists>r r'. empirical_prediction m = Fin r \<and>
           empirical_prediction (m\<lparr>abdomen := Some w'\<rparr>) = Fin r' \<and> r \<le> r'"
    using waist_monotone by blast
next
  assume "0 < girth m \<and> 0 < get_or (height m) 170 \<and> get_or (height m) 170 \<le> h' \<and>
      0 < navy_denominator m"
  then show "\<exists>r r'. empirical_prediction m = Fin r \<and>
           empirical_prediction (m\<lparr>height := Some h'\<rparr>) = Fin r' \<and> r' \<le> r"
    using height_monotone by blast
qed

text \<open>
  Claim C4 as it was stated fails where the formula leaves its domain. With height 100 and
  neck 60, a waist of 50 (a negative waist-neck difference, whose logarithm is a NaN that
  the two built-ins \<^verbatim>\<open>min\<close> and \<^verbatim>\<open>max\<close> turn into 50) gives 50 and the larger waist 61
  gives 5. Beyond the pole of the formula, where the denominator changes sign and the
  quotient jumps from large positive to negative values, it fails too: with height 100 and
  neck 37, a waist-neck difference of \<open>10\<^sup>7\<close> gives 50 and the larger difference \<open>10\<^sup>8\<close> gives
  5; with the difference \<open>10\<^sup>7\<close>, the smaller height 10 gives 5 and the larger height 100
  gives 50.
\<close>

theorem navy_monotone_counterexample:
  "empirical_prediction (male_measurements 100 50 60) = Fin 50 \<and>
   empirical_prediction (male_measurements 100 61 60) = Fin 5 \<and>
   empirical_prediction (male_measurements 100 10000037 37) = Fin 50 \<and>
   empirical_prediction (male_measurements 100 100000037 37) = Fin 5 \<and>
   empirical_prediction (male_measurements 10 10000037 37) = Fin 5"
proof -
  have l1: "log 10 (10000000::real) = 7" using log10_pow[of 7] by simp
  have l2: "log 10 (100::real) = 2" using log10_pow[of 2] by simp
  have l3: "log 10 (100000000::real) = 8" using log10_pow[of 8] by simp
  have n1: "empirical_prediction (male_measurements 100 50 60) = Fin 50"
    by (simp add: empirical_prediction_def male_measurements_def get_or_def lower_def lower_char_def
        np_log10_def fsub_def py_max_def py_min_def l2 Let_def)
  have n2: "empirical_prediction (male_measurements 100 61 60) = Fin 5"
    by (simp add: empirical_prediction_def male_measurements_def get_or_def lower_def lower_char_def
        np_log10_def fsub_def py_max_def py_min_def l2 Let_def)
  have a: "empirical_prediction (male_measurements 100 10000037 37) = Fin 50"
    by (simp add: empirical_prediction_def male_measurements_def get_or_def lower_def lower_char_def
        np_log10_def fsub_def py_max_def py_min_def l1 l2 Let_def)
  have b: "empirical_prediction (male_measurements 100 100000037 37) = Fin 5"
    by (simp add: empirical_prediction_def male_measurements_def get_or_def lower_def lower_char_def
        np_log10_def fsub_def py_max_def py_min_def l3 l2 Let_def)
  have c: "empirical_prediction (male_measurements 10 10000037 37) = Fin 5"
    by (simp add: empirical_prediction_def male_measurements_def get_or_def lower_def lower_char_def
        np_log10_def fsub_def py_max_def py_min_def l1 Let_def)
  from n1 n2 a b c show ?thesis by (intro conjI)
qed

theorem navy_prediction_range_and_monotone_witness:
  "0 < girth (male_measurements 100 47 37) \<and>
   0 < get_or (height (male_measurements 100 47 37)) 170 \<and>
   get_or (abdomen (male_measurements 100 47 37)) 85 \<le> 137 \<and>
   0 < navy_denominator ((male_measurements 100 47 37)\<lparr>abdomen := Some 137\<rparr>) \<and>
   get_or (height (male_measurements 100 47 37)) 170 \<le> 1000 \<and>
   0 < navy_denominator (male_measurements 100 47 37) \<and>
   \<not> is_trained \<lparr>is_trained = False, model = (\<lambda>_. NaN)\<rparr> \<and>
   predict \<lparr>is_trained = False, model = (\<lambda>_. NaN)\<rparr> (male_measurements 100 47 37) = Fin 5 \<and>
   empirical_prediction ((male_measurements 100 47 37)\<lparr>abdomen := Some 137\<rparr>) = Fin 50 \<and>
   empirical_prediction ((male_measurements 100 47 37)\<lparr>height := Some 1000\<rparr>) = Fin 5"
proof -
  let ?m = "male_measurements 100 47 37"
  let ?p = "\<lparr>is_trained = False, model = (\<lambda>_. NaN)\<rparr>"
  have male: "is_male ?m" "is_male (?m\<lparr>abdomen := Some 137\<rparr>)"
    by (simp_all add: is_male_def male_measurements_def get_or_def lower_def lower_char_def)
  have l2: "log 10 (100::real) = 2" using log10_pow[of 2] by simp
  have g: "girth ?m = 10" "girth (?m\<lparr>abdomen := Some 137\<rparr>) = 100"
    using male by (simp_all add: girth_def) (simp_all add: male_measurements_def get_or_def)
  have h1: "0 < girth ?m" by (simp add: g)
  have h2: "0 < get_or (height ?m) 170" by (simp add: male_measurements_def get_or_def)
  have h3: "get_or (abdomen ?m) 85 \<le> 137" by (simp add: male_measurements_def get_or_def)
  have h4: "0 < navy_denominator (?m\<lparr>abdomen := Some 137\<rparr>)"
    using male(2) by (simp add: navy_denominator_def g l2) (simp add: male_measurements_def get_or_def l2)
  have h5: "get_or (height ?m) 170 \<le> 1000" by (simp add: male_measurements_def get_or_def)
  have h6: "0 < navy_denominator ?m"
    using male(1) by (simp add: navy_denominator_def g) (simp add: male_measurements_def get_or_def l2)
  have h7: "\<not> is_trained ?p" by simp
  note inst = navy_prediction_range_and_monotone[where m = ?m and self = ?p and w' = 137 and h' = 1000]
  have e: "empirical_prediction ?m = Fin 5"
    by (simp add: empirical_prediction_def male_measurements_def get_or_def lower_def lower_char_def
        np_log10_def fsub_def py_max_def py_min_def l2 Let_def)
  from inst h7 e have a: "predict ?p ?m = Fin 5" by simp
  from inst h1 h2 h3 h4 obtain r r' where w: "empirical_prediction ?m = Fin r"
    "empirical_prediction (?m\<lparr>abdomen := Some 137\<rparr>) = Fin r'" "r \<le> r'" by blast
  have b: "empirical_prediction (?m\<lparr>abdomen := Some 137\<rparr>) = Fin 50"
    by (simp add: empirical_prediction_def male_measurements_def get_or_def lower_def lower_char_def
        np_log10_def fsub_def py_max_def py_min_def l2 Let_def)
  have l3: "log 10 (1000::real) = 3" using log10_pow[of 3] by simp
  have c: "empirical_prediction (?m\<lparr>height := Some 1000\<rparr>) = Fin 5"
    by (simp add: empirical_prediction_def male_measurements_def get_or_def lower_def lower_char_def
        np_log10_def fsub_def py_max_def py_min_def l3 Let_def)
  from h1 h2 h3 h4 h5 h6 h7 a b c show ?thesis by (intro conjI)
qed

section \<open>Properties of the credential manager\<close>

lemma rmatch_many0: "rmatch [Many cs 0] s \<longleftrightarrow> set s \<subseteq> set cs"
  by (induction s) auto

lemma rmatch_many1: "rmatch [Many cs (Suc 0)] s \<longleftrightarrow> s \<noteq> [] \<and> set s \<subseteq> set cs"
  by (cases s) (auto simp: rmatch_many0)

lemma username_pattern_chars:
  "rmatch username_pattern s \<longleftrightarrow> s \<noteq> [] \<and> (\<forall>c \<in> set s. word_char c)"
  unfolding username_pattern_def word_char_def
  by (auto simp: rmatch_many1)

lemma username_pattern_rejects:
  assumes "\<exists>c \<in> set (without_final_newline s). \<not> word_char c"
  shows "\<not> re_match_dollar username_pattern s"
proof
  assume "re_match_dollar username_pattern s"
  then consider "rmatch username_pattern s"
    | "s \<noteq> []" "last s = newline" "rmatch username_pattern (butlast s)"
    unfolding re_match_dollar_def by blast
  then show False
  proof cases
    case 1
    then have "\<forall>c \<in> set s. word_char c" by (simp add: username_pattern_chars)
    moreover have "set (without_final_newline s) \<subseteq> set s"
      by (auto simp: without_final_newline_def dest: in_set_butlastD)
    ultimately show False using assms by blast
  next
    case 2
    then have "\<forall>c \<in> set (butlast s). word_char c" by (simp add: username_pattern_chars)
    moreover have "without_final_newline s = butlast s"
      using 2 by (simp add: without_final_newline_def)
    ultimately show False using assms by simp
  qed
qed

lemma validate_username_iff:
  "fst (validate_username uname) \<longleftrightarrow>
     3 \<le> length uname \<and> length uname \<le> 20 \<and> re_match_dollar username_pattern uname"
  by (auto simp: validate_username_def)

lemma validate_email_iff:
  "fst (validate_email mail) \<longleftrightarrow> mail \<noteq> [] \<and> re_match_dollar email_pattern mail"
  by (auto simp: validate_email_def)

lemma validate_password_iff:
  "fst (validate_password password) \<longleftrightarrow>
     8 \<le> length password \<and> (\<exists>c \<in> set password. c \<in> set letters) \<and>
     (\<exists>c \<in> set password. c \<in> set digits)"
  by (auto simp: validate_password_def MIN_PASSWORD_LENGTH_def list_ex_iff)

lemma register_invalid_username:
  "\<not> fst (validate_username uname) \<Longrightarrow>
     register_user hashpw faults now s uname mail password =
       Inr ((False, snd (validate_username uname), None), s)"
  by (simp add: register_user_def)

lemma register_invalid_email:
  "fst (validate_username uname) \<Longrightarrow> \<not> fst (validate_email mail) \<Longrightarrow>
     register_user hashpw faults now s uname mail password =
       Inr ((False, snd (validate_email mail), None), s)"
  by (simp add: register_user_def)

lemma register_invalid_password:
  "fst (validate_username uname) \<Longrightarrow> fst (validate_email mail) \<Longrightarrow>
     \<not> fst (validate_password password) \<Longrightarrow>
     register_user hashpw faults now s uname mail password =
       Inr ((False, snd (validate_password password), None), s)"
  by (simp add: register_user_def)

lemma register_reaches_store:
  "register_user hashpw (Some OperationalError # faults) now s uname mail password =
       Inl (StoreExc OperationalError) \<longleftrightarrow>
     fst (validate_username uname) \<and> fst (validate_email mail) \<and> fst (validate_password password)"
  by (simp add: register_user_def get_user_by_username_def fault_at_def)

text \<open>
  Claim C5, as amended. \<^const>\<open>register_user\<close> validates username, email and password in
  this order and fails with the message of the first violated rule, leaving the store as
  it was: an empty username fails with "Username is required", a non-empty username shorter
  than 3 characters with "Username must be at least 3 characters", one longer than 20 with
  its length message, one with a character other than a letter, a digit or the underscore
  (a single newline ending the username is not looked at here) with the character message;
  then an empty email or one that does not match the pattern fails; then an empty password,
  one shorter than 8 characters, one without a letter and one without a digit fail. The three
  validators accept exactly the inputs described, and the first store call (the duplicate
  check of the username) is reached exactly when all three validations pass: with a storage
  fault planted in the first store call, the call raises exactly then.
\<close>

theorem register_validation_order:
  "(let r = register_user hashpw faults now s uname mail password;
        fails = (\<lambda>msg. r = Inr ((False, msg, None), s))
    in (uname = [] \<longrightarrow> fails ''Username is required'') \<and>
       (uname \<noteq> [] \<and> length uname < 3 \<longrightarrow> fails ''Username must be at least 3 characters'') \<and>
       (20 < length uname \<longrightarrow> fails ''Username must be less than 20 characters'') \<and>
       (3 \<le> length uname \<and> length uname \<le> 20 \<and>
          (\<exists>c \<in> set (without_final_newline uname). \<not> word_char c) \<longrightarrow>
          fails ''Username can only contain letters, numbers, and underscores'') \<and>
       (fst (validate_username uname) \<and> mail = [] \<longrightarrow> fails ''Email is required'') \<and>
       (fst (validate_username uname) \<and> mail \<noteq> [] \<and> \<not> re_match_dollar email_pattern mail \<longrightarrow>
          fails ''Invalid email format'') \<and>
       (fst (validate_username uname) \<and> fst (validate_email mail) \<and> password = [] \<longrightarrow>
          fails ''Password is required'') \<and>
       (fst (validate_username uname) \<and> fst (validate_email mail) \<and> password \<noteq> [] \<and>
          length password < 8 \<longrightarrow> fails ''Password must be at least 8 characters'') \<and>
       (fst (validate_username uname) \<and> fst (validate_email mail) \<and> 8 \<le> length password \<and>
          (\<forall>c \<in> set password. c \<notin> set letters) \<longrightarrow>
          fails ''Password must contain at least one letter'') \<and>
       (fst (validate_username uname) \<and> fst (validate_email mail) \<and> 8 \<le> length password \<and>
          (\<exists>c \<in> set password. c \<in> set letters) \<and> (\<forall>c \<in> set password. c \<notin> set digits) \<longrightarrow>
          fails ''Password must contain at least one number'')) \<and>
   (fst (validate_username uname) \<longleftrightarrow>
      3 \<le> length uname \<and> length uname \<le> 20 \<and> re_match_dollar username_pattern uname) \<and>
   (fst (validate_email mail) \<longleftrightarrow> mail \<noteq> [] \<and> re_match_dollar email_pattern mail) \<and>
   (fst (validate_password password) \<longleftrightarrow>
      8 \<le> length password \<and> (\<exists>c \<in> set password. c \<in> set letters) \<and>
      (\<exists>c \<in> set password. c \<in> set digits)) \<and>
   (register_user hashpw (Some OperationalError # faults) now s uname mail password =
       Inl (StoreExc OperationalError) \<longleftrightarrow>
     fst (validate_username uname) \<and> fst (validate_email mail) \<and> fst (validate_password password))"
proof -
  let ?r = "register_user hashpw faults now s uname mail password"
  have u1: "uname = [] \<Longrightarrow> ?r = Inr ((False, ''Username is required'', None), s)"
    by (simp add: register_user_def validate_username_def)
  have u2: "uname \<noteq> [] \<and> length uname < 3 \<Longrightarrow>
      ?r = Inr ((False, ''Username must be at least 3 characters'', None), s)"
    by (simp add: register_user_def validate_username_def)
  have u3: "20 < length uname \<Longrightarrow>
      ?r = Inr ((False, ''Username must be less than 20 characters'', None), s)"
    by (auto simp: register_user_def validate_username_def)
  have u4: "?r = Inr ((False, ''Username can only contain letters, numbers, and underscores'', None), s)"
    if "3 \<le> length uname \<and> length uname \<le> 20 \<and>
          (\<exists>c \<in> set (without_final_newline uname). \<not> word_char c)"
  proof -
    from that have "\<not> re_match_dollar username_pattern uname"
      using username_pattern_rejects by blast
    with that show ?thesis
      by (auto simp: register_user_def validate_username_def)
  qed
  have e1: "fst (validate_username uname) \<and> mail = [] \<Longrightarrow>
      ?r = Inr ((False, ''Email is required'', None), s)"
    by (simp add: register_user_def validate_email_def)
  have e2: "fst (validate_username uname) \<and> mail \<noteq> [] \<and> \<not> re_match_dollar email_pattern mail \<Longrightarrow>
      ?r = Inr ((False, ''Invalid email format'', None), s)"
    by (simp add: register_user_def validate_email_def)
  have p1: "fst (validate_username uname) \<and> fst (validate_email mail) \<and> password = [] \<Longrightarrow>
      ?r = Inr ((False, ''Password is required'', None), s)"
    by (simp add: register_user_def validate_password_def)
  have p2: "fst (validate_username uname) \<and> fst (validate_email mail) \<and> password \<noteq> [] \<and>
          length password < 8 \<Longrightarrow>
      ?r = Inr ((False, ''Password must be at least 8 characters'', None), s)"
    by (simp add: register_user_def validate_password_def MIN_PASSWORD_LENGTH_def)
  have p3: "fst (validate_username uname) \<and> fst (validate_email mail) \<and> 8 \<le> length password \<and>
          (\<forall>c \<in> set password. c \<notin> set letters) \<Longrightarrow>
      ?r = Inr ((False, ''Password must contain at least one letter'', None), s)"
    by (auto simp: register_user_def validate_password_def MIN_PASSWORD_LENGTH_def list_ex_iff)
  have p4: "fst (validate_username uname) \<and> fst (validate_email mail) \<and> 8 \<le> length password \<and>
          (\<exists>c \<in> set password. c \<in> set letters) \<and> (\<forall>c \<in> set password. c \<notin> set digits) \<Longrightarrow>
      ?r = Inr ((False, ''Password must contain at least one number'', None), s)"
    by (auto simp: register_user_def validate_password_def MIN_PASSWORD_LENGTH_def list_ex_iff)
  show ?thesis
    unfolding Let_def
    using u1 u2 u3 u4 e1 e2 p1 p2 p3 p4
    by (intro conjI impI validate_username_iff validate_email_iff validate_password_iff
        register_reaches_store) blast+
qed

text \<open>
  Claim C5 as it was stated says that every username shorter than 3 characters fails with
  the "must be at least 3 characters" message. The empty username is caught by an earlier
  guard and fails with "Username is required".
\<close>

theorem register_empty_username_counterexample:
  "length ('''' :: string) < 3 \<and>
   register_user sample_hashpw [] ''2024-02-01 08:00:00'' sample_store
       '''' ''carol@example.com'' ''passw0rd'' =
     Inr ((False, ''Username is required'', None), sample_store)"
  by (simp add: register_user_def validate_username_def)

theorem register_validation_order_witness:
  "(''ab'' \<noteq> [] \<and> length ''ab'' < 3) \<and>
   register_user sample_hashpw [] ''2024-02-01 08:00:00'' sample_store
       ''ab'' ''carol@example.com'' ''passw0rd'' =
     Inr ((False, ''Username must be at least 3 characters'', None), sample_store) \<and>
   (fst (validate_username ''carol'') \<and> fst (validate_email ''carol@example.com'') \<and>
      ''short1'' \<noteq> [] \<and> length ''short1'' < 8) \<and>
   register_user sample_hashpw [] ''2024-02-01 08:00:00'' sample_store
       ''carol'' ''carol@example.com'' ''short1'' =
     Inr ((False, ''Password must be at least 8 characters'', None), sample_store)"
proof -
  have h1: "''ab'' \<noteq> [] \<and> length ''ab'' < 3" by simp
  have vu: "fst (validate_username ''carol'')"
    by (simp add: validate_username_def re_match_dollar_def username_pattern_def letters_def
        digits_def)
  have ve: "fst (validate_email ''carol@example.com'')"
    by (simp add: validate_email_def re_match_dollar_def email_pattern_def letters_def digits_def
        newline_def eval_nat_numeral)
  have h2: "fst (validate_username ''carol'') \<and> fst (validate_email ''carol@example.com'') \<and>
      ''short1'' \<noteq> [] \<and> length ''short1'' < 8"
    using vu ve by simp
  note i1 = register_validation_order[where uname = "''ab''" and mail = "''carol@example.com''"
      and password = "''passw0rd''" and hashpw = sample_hashpw and faults = "[]"
      and now = "''2024-02-01 08:00:00''" and s = sample_store, unfolded Let_def]
  note i2 = register_validation_order[where uname = "''carol''" and mail = "''carol@example.com''"
      and password = "''short1''" and hashpw = sample_hashpw and faults = "[]"
      and now = "''2024-02-01 08:00:00''" and s = sample_store, unfolded Let_def]
  have a: "register_user sample_hashpw [] ''2024-02-01 08:00:00'' sample_store
       ''ab'' ''carol@example.com'' ''passw0rd'' =
     Inr ((False, ''Username must be at least 3 characters'', None), sample_store)"
    using i1 h1 by blast
  have b: "register_user sample_hashpw [] ''2024-02-01 08:00:00'' sample_store
       ''carol'' ''carol@example.com'' ''short1'' =
     Inr ((False, ''Password must be at least 8 characters'', None), sample_store)"
    using i2 h2 by blast
  from h1 a h2 b show ?thesis by blast
qed

lemma find_none:
  "(\<forall>u \<in> set xs. \<not> P u) \<Longrightarrow> find P xs = None"
  by (simp add: find_None_iff)

lemma find_login_user_cases:
  assumes "fault_at faults 0 = None" and "fault_at faults 1 = None"
  shows "(\<exists>u n. find_login_user faults s ident = Inr (Some u, n) \<and> u \<in> set (users s) \<and>
            (username u = ident \<or> email u = ident)) \<or>
         (\<exists>n. find_login_user faults s ident = Inr (None, n) \<and>
            (\<forall>u \<in> set (users s). username u \<noteq> ident \<and> email u \<noteq> ident))"
proof (cases "find (\<lambda>u. username u = ident) (users s)")
  case (Some u)
  then have "u \<in> set (users s)" "username u = ident"
    by (auto simp: find_Some_iff)
  with Some assms show ?thesis
    by (simp add: find_login_user_def get_user_by_username_def)
next
  case None
  note n1 = this
  show ?thesis
  proof (cases "find (\<lambda>u. email u = ident) (users s)")
    case (Some u)
    then have "u \<in> set (users s)" "email u = ident"
      by (auto simp: find_Some_iff)
    with Some n1 assms show ?thesis
      by (simp add: find_login_user_def get_user_by_username_def get_user_by_email_def)
  next
    case None
    with n1 have "\<forall>u \<in> set (users s). username u \<noteq> ident \<and> email u \<noteq> ident"
      by (auto simp: find_None_iff)
    with None n1 assms show ?thesis
      by (simp add: find_login_user_def get_user_by_username_def get_user_by_email_def)
  qed
qed

lemma login_all_mismatch:
  assumes "ident \<noteq> []" and "password \<noteq> []"
    and "fault_at faults 0 = None" and "fault_at faults 1 = None"
    and "\<forall>u \<in> set (users s). (username u = ident \<or> email u = ident) \<longrightarrow>
           \<not> verify_password checkpw password (password_hash u)"
  shows "login_user checkpw faults now s ident password =
           Inr ((False, ''Invalid credentials'', None), s)"
  using find_login_user_cases[OF assms(3,4), of s ident] assms(1,2,5)
  by (auto simp: login_user_def)

text \<open>
  Claim C1, as amended. On a store that answers the two lookups, for a non-empty identifier
  and a non-empty password, \<^const>\<open>login_user\<close> returns failure with the message "Invalid
  credentials", no account data and an unchanged store, both when the identifier designates
  stored users whose hash the password does not verify against and when the identifier
  matches no stored username or email. For every password, empty or not, the result for such
  a stored identifier and the result for a non-empty identifier that matches no account are
  equal, so the two causes cannot be told apart. An empty identifier or an empty password
  is answered with "Username/email and password are required" and an unchanged store.
\<close>

theorem login_uniform_failure:
  assumes "fault_at faults 0 = None" and "fault_at faults 1 = None"
  shows "(ident \<noteq> [] \<and> password \<noteq> [] \<and>
          (\<exists>u \<in> set (users s). username u = ident \<or> email u = ident) \<and>
          (\<forall>u \<in> set (users s). username u = ident \<or> email u = ident \<longrightarrow>
              \<not> verify_password checkpw password (password_hash u)) \<longrightarrow>
            login_user checkpw faults now s ident password =
              Inr ((False, ''Invalid credentials'', None), s)) \<and>
         (ident \<noteq> [] \<and> password \<noteq> [] \<and>
          (\<forall>u \<in> set (users s). username u \<noteq> ident \<and> email u \<noteq> ident) \<longrightarrow>
            login_user checkpw faults now s ident password =
              Inr ((False, ''Invalid credentials'', None), s)) \<and>
         (ident \<noteq> [] \<and> other \<noteq> [] \<and>
          (\<exists>u \<in> set (users s). username u = ident \<or> email u = ident) \<and>
          (\<forall>u \<in> set (users s). username u = ident \<or> email u = ident \<longrightarrow>
              \<not> verify_password checkpw password (password_hash u)) \<and>
          (\<forall>u \<in> set (users s). username u \<noteq> other \<and> email u \<noteq> other) \<longrightarrow>
            login_user checkpw faults now s ident password =
              login_user checkpw faults now s other password) \<and>
         (ident = [] \<or> password = [] \<longrightarrow>
            login_user checkpw faults now s ident password =
              Inr ((False, ''Username/email and password are required'', None), s))"
proof (intro conjI impI)
  assume h: "ident \<noteq> [] \<and> password \<noteq> [] \<and>
          (\<exists>u \<in> set (users s). username u = ident \<or> email u = ident) \<and>
          (\<forall>u \<in> set (users s). username u = ident \<or> email u = ident \<longrightarrow>
              \<not> verify_password checkpw password (password_hash u))"
  then have m: "\<forall>u \<in> set (users s). (username u = ident \<or> email u = ident) \<longrightarrow>
           \<not> verify_password checkpw password (password_hash u)" by blast
  from h have ne: "ident \<noteq> []" "password \<noteq> []" by simp_all
  show "login_user checkpw faults now s ident password =
              Inr ((False, ''Invalid credentials'', None), s)"
    by (rule login_all_mismatch[OF ne assms m])
next
  assume h: "ident \<noteq> [] \<and> password \<noteq> [] \<and>
          (\<forall>u \<in> set (users s). username u \<noteq> ident \<and> email u \<noteq> ident)"
  then have m: "\<forall>u \<in> set (users s). (username u = ident \<or> email u = ident) \<longrightarrow>
           \<not> verify_password checkpw password (password_hash u)" by blast
  from h have ne: "ident \<noteq> []" "password \<noteq> []" by simp_all
  show "login_user checkpw faults now s ident password =
              Inr ((False, ''Invalid credentials'', None), s)"
    by (rule login_all_mismatch[OF ne assms m])
next
  assume h: "ident \<noteq> [] \<and> other \<noteq> [] \<and>
          (\<exists>u \<in> set (users s). username u = ident \<or> email u = ident) \<and>
          (\<forall>u \<in> set (users s). username u = ident \<or> email u = ident \<longrightarrow>
              \<not> verify_password checkpw password (password_hash u)) \<and>
          (\<forall>u \<in> set (users s). username u \<noteq> other \<and> email u \<noteq> other)"
  then have ne: "ident \<noteq> []" "other \<noteq> []" by simp_all
  show "login_user checkpw faults now s ident password =
              login_user checkpw faults now s other password"
  proof (cases "password = []")
    case True
    with ne show ?thesis by (simp add: login_user_def)
  next
    case False
    from h have m1: "\<forall>u \<in> set (users s). (username u = ident \<or> email u = ident) \<longrightarrow>
           \<not> verify_password checkpw password (password_hash u)" by blast
    from h have m2: "\<forall>u \<in> set (users s). (username u = other \<or> email u = other) \<longrightarrow>
           \<not> verify_password checkpw password (password_hash u)" by blast
    have "login_user checkpw faults now s ident password =
              Inr ((False, ''Invalid credentials'', None), s)"
      by (rule login_all_mismatch[OF ne(1) False assms m1])
    moreover have "login_user checkpw faults now s other password =
              Inr ((False, ''Invalid credentials'', None), s)"
      by (rule login_all_mismatch[OF ne(2) False assms m2])
    ultimately show ?thesis by simp
  qed
next
  assume "ident = [] \<or> password = []"
  then show "login_user checkpw faults now s ident password =
              Inr ((False, ''Username/email and password are required'', None), s)"
    by (auto simp: login_user_def)
qed

text \<open>
  Claim C1 as it was stated covers every password that does not verify and every identifier
  that matches no account. The empty password does not verify against the stored hash, and
  the empty identifier matches no account, but the first guard of \<^const>\<open>login_user\<close> answers
  both with "Username/email and password are required".
\<close>

theorem login_empty_password_counterexample:
  "username (hd (users sample_store)) = ''alice'' \<and>
   \<not> verify_password sample_checkpw '''' (password_hash (hd (users sample_store))) \<and>
   login_user sample_checkpw [] ''2024-02-01 08:00:00'' sample_store ''alice'' '''' =
     Inr ((False, ''Username/email and password are required'', None), sample_store) \<and>
   login_user sample_checkpw [] ''2024-02-01 08:00:00'' sample_store '''' ''wonder1and'' =
     Inr ((False, ''Username/email and password are required'', None), sample_store)"
  by (simp add: login_user_def sample_store_def verify_password_def sample_checkpw_def
      sample_hash_def)

theorem login_uniform_failure_witness:
  "fault_at [] 0 = None \<and> fault_at [] 1 = None \<and>
   login_user sample_checkpw [] ''2024-02-01 08:00:00'' sample_store ''alice'' ''letmein99'' =
     Inr ((False, ''Invalid credentials'', None), sample_store) \<and>
   login_user sample_checkpw [] ''2024-02-01 08:00:00'' sample_store ''mallory'' ''letmein99'' =
     Inr ((False, ''Invalid credentials'', None), sample_store) \<and>
   login_user sample_checkpw [] ''2024-02-01 08:00:00'' sample_store ''alice'' [] =
     login_user sample_checkpw [] ''2024-02-01 08:00:00'' sample_store ''mallory'' []"
proof -
  have f: "fault_at [] 0 = None" "fault_at [] 1 = None"
    by (simp_all add: fault_at_def)
  have stored: "\<exists>u \<in> set (users sample_store). username u = ''alice'' \<or> email u = ''alice''"
    by (simp add: sample_store_def)
  have wrong: "\<forall>u \<in> set (users sample_store). username u = ''alice'' \<or> email u = ''alice'' \<longrightarrow>
              \<not> verify_password sample_checkpw ''letmein99'' (password_hash u)"
    by (simp add: sample_store_def verify_password_def sample_checkpw_def sample_hash_def)
  have wrong_empty: "\<forall>u \<in> set (users sample_store). username u = ''alice'' \<or> email u = ''alice'' \<longrightarrow>
              \<not> verify_password sample_checkpw [] (password_hash u)"
    by (simp add: sample_store_def verify_password_def sample_checkpw_def sample_hash_def)
  have unknown: "\<forall>u \<in> set (users sample_store). username u \<noteq> ''mallory'' \<and> email u \<noteq> ''mallory''"
    by (simp add: sample_store_def)
  have ne: "''alice'' \<noteq> []" "''mallory'' \<noteq> []" "''letmein99'' \<noteq> []" by simp_all
  note i1 = login_uniform_failure[OF f, where s = sample_store and checkpw = sample_checkpw
      and now = "''2024-02-01 08:00:00''" and ident = "''alice''" and password = "''letmein99''"
      and other = "''mallory''"]
  note i2 = login_uniform_failure[OF f, where s = sample_store and checkpw = sample_checkpw
      and now = "''2024-02-01 08:00:00''" and ident = "''mallory''" and password = "''letmein99''"
      and other = "''mallory''"]
  note i3 = login_uniform_failure[OF f, where s = sample_store and checkpw = sample_checkpw
      and now = "''2024-02-01 08:00:00''" and ident = "''alice''" and password = "[]"
      and other = "''mallory''"]
  have a: "login_user sample_checkpw [] ''2024-02-01 08:00:00'' sample_store ''alice'' ''letmein99'' =
     Inr ((False, ''Invalid credentials'', None), sample_store)"
    using i1 ne stored wrong by blast
  have b: "login_user sample_checkpw [] ''2024-02-01 08:00:00'' sample_store ''mallory'' ''letmein99'' =
     Inr ((False, ''Invalid credentials'', None), sample_store)"
    using i2 ne unknown by blast
  have c: "login_user sample_checkpw [] ''2024-02-01 08:00:00'' sample_store ''alice'' [] =
     login_user sample_checkpw [] ''2024-02-01 08:00:00'' sample_store ''mallory'' []"
    using i3 ne stored wrong_empty unknown by blast
  from f a b c show ?thesis by blast
qed

section \<open>Write effects of the credential manager and failure handling of the store\<close>

lemma register_effect:
  assumes "register_user hashpw faults now s uname mail password = Inr ((ok, msg, uid), s')"
  shows "(ok \<longrightarrow>
           (\<exists>n h. uid = Some n \<and> hashpw password = Some h \<and>
              s' = s\<lparr>users := users s @
                        [\<lparr>user_id = n, username = uname, email = mail,
                          password_hash = h, created_at = now,
                          last_login = None, is_active = True\<rparr>],
                     user_seq := n,
                     writes := writes s @ [InsertUser n]\<rparr>)) \<and>
         (\<not> ok \<longrightarrow> s' = s \<and> uid = None)"
  using assms
  by (auto simp: register_user_def get_user_by_username_def get_user_by_email_def
      create_user_def insert_user_def Let_def
      split: if_splits option.splits sum.splits db_exc.splits prod.splits)

lemma login_effect:
  assumes "login_user checkpw faults now s ident password = Inr ((ok, msg, data), s')"
  shows "(ok \<longrightarrow>
           (\<exists>u \<in> set (users s). data = Some (strip_hash u) \<and>
              s' = s\<lparr>users := map (\<lambda>v. if user_id v = user_id u
                                          then v\<lparr>last_login := Some now\<rparr> else v) (users s),
                     writes := writes s @ [UpdateLastLogin (user_id u)]\<rparr>)) \<and>
         (\<not> ok \<longrightarrow> s' = s \<and> data = None)"
  using assms
  by (auto simp: login_user_def find_login_user_def get_user_by_username_def
      get_user_by_email_def update_last_login_def find_Some_iff
      split: if_splits option.splits sum.splits prod.splits)

lemma register_returns:
  "hashpw password \<noteq> None \<Longrightarrow>
     \<exists>r s'. register_user hashpw [] now s uname mail password = Inr (r, s')"
  by (auto simp: register_user_def get_user_by_username_def get_user_by_email_def
      create_user_def insert_user_def Let_def fault_at_def
      split: if_splits option.splits sum.splits db_exc.splits prod.splits)

lemma register_raises:
  "register_user hashpw [] now s uname mail password = Inl e \<Longrightarrow>
     e = BcryptValueError \<and> hashpw password = None"
  by (auto simp: register_user_def get_user_by_username_def get_user_by_email_def
      create_user_def insert_user_def Let_def fault_at_def
      split: if_splits option.splits sum.splits db_exc.splits prod.splits)

lemma login_total:
  "\<exists>r s'. login_user checkpw [] now s ident password = Inr (r, s')"
  by (auto simp: login_user_def find_login_user_def get_user_by_username_def
      get_user_by_email_def update_last_login_def fault_at_def
      split: if_splits option.splits sum.splits prod.splits)

text \<open>
  Claim C8. Whatever the storage faults, a \<^const>\<open>register_user\<close> call that returns success
  has committed exactly one write, the insertion of the new account with the hash that
  \<^verbatim>\<open>hash_password\<close> returned, and a \<^const>\<open>login_user\<close> call that returns success has
  committed exactly one write, the last-login update of the account returned; a call that
  returns failure (a validation failure, a duplicate username or email, an unknown
  identifier, a wrong password, an inactive account) returns the store it was given. On a
  store without faults \<^const>\<open>login_user\<close> always returns, and \<^const>\<open>register_user\<close> returns
  whenever \<^verbatim>\<open>hash_password\<close> does: the only exception it can then raise is the one of
  \<^verbatim>\<open>hash_password\<close>, which comes before the insertion.
\<close>

theorem auth_write_effects:
  "(register_user hashpw faults now s uname mail password = Inr ((ok, msg, uid), s') \<longrightarrow>
      (ok \<longrightarrow>
         (\<exists>n h. uid = Some n \<and> hashpw password = Some h \<and>
            s' = s\<lparr>users := users s @
                      [\<lparr>user_id = n, username = uname, email = mail,
                        password_hash = h, created_at = now,
                        last_login = None, is_active = True\<rparr>],
                   user_seq := n,
                   writes := writes s @ [InsertUser n]\<rparr>)) \<and>
      (\<not> ok \<longrightarrow> s' = s \<and> uid = None)) \<and>
   (login_user checkpw faults now s ident pw = Inr ((lok, lmsg, data), ls) \<longrightarrow>
      (lok \<longrightarrow>
         (\<exists>u \<in> set (users s). data = Some (strip_hash u) \<and>
            ls = s\<lparr>users := map (\<lambda>v. if user_id v = user_id u
                                        then v\<lparr>last_login := Some now\<rparr> else v) (users s),
                   writes := writes s @ [UpdateLastLogin (user_id u)]\<rparr>)) \<and>
      (\<not> lok \<longrightarrow> ls = s \<and> data = None)) \<and>
   (hashpw password \<noteq> None \<longrightarrow>
      (\<exists>r t. register_user hashpw [] now s uname mail password = Inr (r, t))) \<and>
   (register_user hashpw [] now s uname mail password = Inl e \<longrightarrow>
      e = BcryptValueError \<and> hashpw password = None) \<and>
   (\<exists>r t. login_user checkpw [] now s ident pw = Inr (r, t))"
  using register_effect[of hashpw faults now s uname mail password ok msg uid s']
    login_effect[of checkpw faults now s ident pw lok lmsg data ls]
    register_returns[of hashpw password now s uname mail]
    register_raises[of hashpw now s uname mail password e]
    login_total[of checkpw now s ident pw]
  by blast

lemma carol_valid:
  "fst (validate_username ''carol'')" "fst (validate_email ''carol@example.com'')"
  "fst (validate_password ''passw0rd'')"
  by (simp_all add: validate_username_def validate_email_def validate_password_def
      re_match_dollar_def username_pattern_def email_pattern_def letters_def digits_def
      newline_def MIN_PASSWORD_LENGTH_def eval_nat_numeral)

lemma long_password_valid:
  "fst (validate_password (replicate 72 (CHR ''a'') @ ''1''))"
  by (simp add: validate_password_iff letters_def digits_def)

theorem auth_write_effects_witness:
  "register_user sample_hashpw [] ''2024-02-01 08:00:00'' sample_store
       ''carol'' ''carol@example.com'' ''passw0rd'' =
     Inr ((True, ''Registration successful'', Some 3),
          sample_store\<lparr>users := users sample_store @
                      [\<lparr>user_id = 3, username = ''carol'', email = ''carol@example.com'',
                        password_hash = sample_hash ''passw0rd'',
                        created_at = ''2024-02-01 08:00:00'',
                        last_login = None, is_active = True\<rparr>],
                   user_seq := 3,
                   writes := writes sample_store @ [InsertUser 3]\<rparr>) \<and>
   register_user sample_hashpw [] ''2024-02-01 08:00:00'' sample_store
       ''alice'' ''carol@example.com'' ''passw0rd'' =
     Inr ((False, ''Username already exists'', None), sample_store) \<and>
   register_user sample_hashpw [] ''2024-02-01 08:00:00'' sample_store
       ''carol'' ''carol@example.com'' (replicate 72 (CHR ''a'') @ ''1'') =
     Inl BcryptValueError \<and>
   (\<exists>ls. login_user sample_checkpw [] ''2024-02-01 08:00:00'' sample_store
            ''alice@example.com'' ''wonder1and'' =
          Inr ((True, ''Login successful'', Some (strip_hash (hd (users sample_store)))), ls) \<and>
        writes ls = writes sample_store @ [UpdateLastLogin 1]) \<and>
   login_user sample_checkpw [] ''2024-02-01 08:00:00'' sample_store ''bob_99'' ''builder22'' =
     Inr ((False, ''Account is disabled'', None), sample_store)"
proof -
  let ?now = "''2024-02-01 08:00:00''"
  have hp: "sample_hashpw ''passw0rd'' = Some (sample_hash ''passw0rd'')"
    by (simp add: sample_hashpw_def)
  have r1: "\<exists>t. register_user sample_hashpw [] ?now sample_store
       ''carol'' ''carol@example.com'' ''passw0rd'' =
     Inr ((True, ''Registration successful'', Some 3), t)"
    using carol_valid
    by (simp add: register_user_def get_user_by_username_def get_user_by_email_def
        create_user_def insert_user_def fault_at_def sample_store_def Let_def hp)
  then obtain t where t: "register_user sample_hashpw [] ?now sample_store
       ''carol'' ''carol@example.com'' ''passw0rd'' =
     Inr ((True, ''Registration successful'', Some 3), t)" by blast
  note i1 = auth_write_effects[where hashpw = sample_hashpw and faults = "[]" and now = ?now
      and s = sample_store and uname = "''carol''" and mail = "''carol@example.com''"
      and password = "''passw0rd''" and ok = True and msg = "''Registration successful''"
      and uid = "Some 3" and s' = t, THEN conjunct1, rule_format, OF t]
  from i1 have "t = sample_store\<lparr>users := users sample_store @
                      [\<lparr>user_id = 3, username = ''carol'', email = ''carol@example.com'',
                        password_hash = sample_hash ''passw0rd'',
                        created_at = ''2024-02-01 08:00:00'',
                        last_login = None, is_active = True\<rparr>],
                   user_seq := 3,
                   writes := writes sample_store @ [InsertUser 3]\<rparr>"
    by (auto simp: hp)
  with t have a: "register_user sample_hashpw [] ''2024-02-01 08:00:00'' sample_store
       ''carol'' ''carol@example.com'' ''passw0rd'' =
     Inr ((True, ''Registration successful'', Some 3),
          sample_store\<lparr>users := users sample_store @
                      [\<lparr>user_id = 3, username = ''carol'', email = ''carol@example.com'',
                        password_hash = sample_hash ''passw0rd'',
                        created_at = ''2024-02-01 08:00:00'',
                        last_login = None, is_active = True\<rparr>],
                   user_seq := 3,
                   writes := writes sample_store @ [InsertUser 3]\<rparr>)"
    by simp
  have alice_valid: "fst (validate_username ''alice'')"
    by (simp add: validate_username_def re_match_dollar_def username_pattern_def letters_def
        digits_def)
  have r2: "\<exists>t. register_user sample_hashpw [] ?now sample_store
       ''alice'' ''carol@example.com'' ''passw0rd'' =
     Inr ((False, ''Username already exists'', None), t)"
    using carol_valid alice_valid
    by (simp add: register_user_def get_user_by_username_def fault_at_def sample_store_def)
  then obtain t2 where t2: "register_user sample_hashpw [] ?now sample_store
       ''alice'' ''carol@example.com'' ''passw0rd'' =
     Inr ((False, ''Username already exists'', None), t2)" by blast
  note i2 = auth_write_effects[where hashpw = sample_hashpw and faults = "[]" and now = ?now
      and s = sample_store and uname = "''alice''" and mail = "''carol@example.com''"
      and password = "''passw0rd''" and ok = False and msg = "''Username already exists''"
      and uid = None and s' = t2, THEN conjunct1, rule_format, OF t2]
  from i2 t2 have b: "register_user sample_hashpw [] ?now sample_store
       ''alice'' ''carol@example.com'' ''passw0rd'' =
     Inr ((False, ''Username already exists'', None), sample_store)"
    by simp
  have long: "register_user sample_hashpw [] ?now sample_store
       ''carol'' ''carol@example.com'' (replicate 72 (CHR ''a'') @ ''1'') =
     Inl BcryptValueError"
    using carol_valid(1,2) long_password_valid
    by (simp add: register_user_def get_user_by_username_def get_user_by_email_def
        fault_at_def sample_store_def sample_hashpw_def)
  have l1: "\<exists>t. login_user sample_checkpw [] ?now sample_store ''alice@example.com'' ''wonder1and'' =
          Inr ((True, ''Login successful'', Some (strip_hash (hd (users sample_store)))), t)"
    by (simp add: login_user_def find_login_user_def get_user_by_username_def
        get_user_by_email_def update_last_login_def fault_at_def sample_store_def
        verify_password_def sample_checkpw_def)
  then obtain t3 where t3: "login_user sample_checkpw [] ?now sample_store
        ''alice@example.com'' ''wonder1and'' =
          Inr ((True, ''Login successful'', Some (strip_hash (hd (users sample_store)))), t3)"
    by blast
  note i3 = auth_write_effects[where checkpw = sample_checkpw and faults = "[]" and now = ?now
      and s = sample_store and ident = "''alice@example.com''" and pw = "''wonder1and''"
      and lok = True and lmsg = "''Login successful''"
      and data = "Some (strip_hash (hd (users sample_store)))" and ls = t3,
      THEN conjunct2, THEN conjunct1, rule_format, OF t3]
  from i3 obtain u where u: "u \<in> set (users sample_store)"
    "strip_hash (hd (users sample_store)) = strip_hash u"
    "writes t3 = writes sample_store @ [UpdateLastLogin (user_id u)]"
    by auto
  from u(1,2) have "user_id u = 1"
    by (auto simp: sample_store_def strip_hash_def)
  with u(3) t3 have c: "\<exists>ls. login_user sample_checkpw [] ?now sample_store
            ''alice@example.com'' ''wonder1and'' =
          Inr ((True, ''Login successful'', Some (strip_hash (hd (users sample_store)))), ls) \<and>
        writes ls = writes sample_store @ [UpdateLastLogin 1]"
    by auto
  have l2: "\<exists>t. login_user sample_checkpw [] ?now sample_store ''bob_99'' ''builder22'' =
     Inr ((False, ''Account is disabled'', None), t)"
    by (simp add: login_user_def find_login_user_def get_user_by_username_def
        fault_at_def sample_store_def verify_password_def sample_checkpw_def)
  then obtain t4 where t4: "login_user sample_checkpw [] ?now sample_store ''bob_99'' ''builder22'' =
     Inr ((False, ''Account is disabled'', None), t4)" by blast
  note i4 = auth_write_effects[where checkpw = sample_checkpw and faults = "[]" and now = ?now
      and s = sample_store and ident = "''bob_99''" and pw = "''builder22''"
      and lok = False and lmsg = "''Account is disabled''" and data = None and ls = t4,
      THEN conjunct2, THEN conjunct1, rule_format, OF t4]
  from i4 t4 have d: "login_user sample_checkpw [] ?now sample_store ''bob_99'' ''builder22'' =
     Inr ((False, ''Account is disabled'', None), sample_store)"
    by simp
  from a b long c d show ?thesis by blast
qed

text \<open>
  Claim C7, as amended. A storage failure is caught inside the store only where the
  operation has a handler. \<^const>\<open>add_progress_entry\<close> never raises: every failure (a fault
  of the sqlite layer or the \<^verbatim>\<open>NOT NULL\<close> violation of a missing date) comes back as
  \<^verbatim>\<open>False\<close> with the store unchanged, and without a failure it returns \<^verbatim>\<open>True\<close> after one
  write. \<^const>\<open>create_user\<close> turns a constraint violation into \<^verbatim>\<open>None\<close> with the store
  unchanged and lets any other failure through. The reads \<^const>\<open>get_user_by_username\<close>,
  \<^const>\<open>get_user_by_email\<close>, \<^const>\<open>get_user_by_id\<close> and \<^const>\<open>update_last_login\<close> have no
  handler: a failure in them reaches the caller.
\<close>

theorem store_failure_handling:
  "(\<exists>ok t. add_progress_entry fault now s uid pd = Inr (ok, t)) \<and>
   (fault \<noteq> None \<or> entry_date pd = None \<longrightarrow>
      add_progress_entry fault now s uid pd = Inr (False, s)) \<and>
   (fault = None \<and> entry_date pd \<noteq> None \<longrightarrow>
      (\<exists>t w. add_progress_entry fault now s uid pd = Inr (True, t) \<and>
         writes t = writes s @ [w])) \<and>
   (fault = Some IntegrityError \<or>
      fault = None \<and> (\<exists>u \<in> set (users s). username u = uname \<or> email u = mail) \<longrightarrow>
      create_user fault now s uname mail pwhash = Inr (None, s)) \<and>
   (fault = Some OperationalError \<longrightarrow>
      create_user fault now s uname mail pwhash = Inl OperationalError) \<and>
   (\<forall>e. fault = Some e \<longrightarrow>
      get_user_by_username fault s uname = Inl e \<and>
      get_user_by_email fault s mail = Inl e \<and>
      get_user_by_id fault s uid = Inl e \<and>
      update_last_login fault now s uid = Inl e)"
proof (intro conjI impI allI)
  show "\<exists>ok t. add_progress_entry fault now s uid pd = Inr (ok, t)"
    by (cases "insert_progress fault now s uid pd") (auto simp: add_progress_entry_def)
next
  assume "fault \<noteq> None \<or> entry_date pd = None"
  then show "add_progress_entry fault now s uid pd = Inr (False, s)"
    by (auto simp: add_progress_entry_def insert_progress_def split: option.splits)
next
  assume "fault = None \<and> entry_date pd \<noteq> None"
  then show "\<exists>t w. add_progress_entry fault now s uid pd = Inr (True, t) \<and>
         writes t = writes s @ [w]"
    by (auto simp: add_progress_entry_def insert_progress_def Let_def)
next
  assume "fault = Some IntegrityError \<or>
      fault = None \<and> (\<exists>u \<in> set (users s). username u = uname \<or> email u = mail)"
  then show "create_user fault now s uname mail pwhash = Inr (None, s)"
    by (auto simp: create_user_def insert_user_def list_ex_iff)
next
  assume "fault = Some OperationalError"
  then show "create_user fault now s uname mail pwhash = Inl OperationalError"
    by (simp add: create_user_def insert_user_def)
next
  fix e assume "fault = Some e"
  then show "get_user_by_username fault s uname = Inl e"
    "get_user_by_email fault s mail = Inl e"
    "get_user_by_id fault s uid = Inl e"
    "update_last_login fault now s uid = Inl e"
    by (simp_all add: get_user_by_username_def get_user_by_email_def get_user_by_id_def
        update_last_login_def)
qed

text \<open>
  Claim C7 as it was stated says that no store operation ever lets an exception through,
  reads included. A failure of the sqlite layer during \<^const>\<open>get_user_by_username\<close> or
  \<^const>\<open>get_user_by_email\<close>, and one other than a constraint violation during
  \<^const>\<open>create_user\<close>, leaves the operation as an exception.
\<close>

theorem store_failure_propagates_counterexample:
  "get_user_by_username (Some OperationalError) sample_store ''alice'' = Inl OperationalError \<and>
   get_user_by_email (Some OperationalError) sample_store ''alice@example.com'' =
     Inl OperationalError \<and>
   create_user (Some OperationalError) ''2024-02-01 08:00:00'' sample_store
       ''carol'' ''carol@example.com'' (sample_hash ''passw0rd'') = Inl OperationalError"
  by (simp add: get_user_by_username_def get_user_by_email_def create_user_def insert_user_def)

theorem store_failure_handling_witness:
  "add_progress_entry (Some OperationalError) ''2024-02-01 08:00:00'' sample_store 1 sample_entry =
     Inr (False, sample_store) \<and>
   username (hd (users sample_store)) = ''alice'' \<and>
   create_user None ''2024-02-01 08:00:00'' sample_store ''alice'' ''new@example.com''
       (sample_hash ''passw0rd'') = Inr (None, sample_store)"
proof -
  let ?now = "''2024-02-01 08:00:00''"
  have h1: "Some OperationalError \<noteq> (None :: db_exc option) \<or> entry_date sample_entry = None"
    by simp
  have h0: "username (hd (users sample_store)) = ''alice''"
    by (simp add: sample_store_def)
  have h2: "(None :: db_exc option) = Some IntegrityError \<or>
      (None :: db_exc option) = None \<and>
      (\<exists>u \<in> set (users sample_store). username u = ''alice'' \<or> email u = ''new@example.com'')"
    by (simp add: sample_store_def)
  note i1 = store_failure_handling[where fault = "Some OperationalError" and now = ?now
      and s = sample_store and uid = 1 and pd = sample_entry]
  note i2 = store_failure_handling[where fault = None and now = ?now
      and s = sample_store and uname = "''alice''" and mail = "''new@example.com''"
      and pwhash = "sample_hash ''passw0rd''"]
  have a: "add_progress_entry (Some OperationalError) ?now sample_store 1 sample_entry =
     Inr (False, sample_store)"
    using i1 h1 by blast
  have b: "create_user None ?now sample_store ''alice'' ''new@example.com''
       (sample_hash ''passw0rd'') = Inr (None, sample_store)"
    using i2 h2 by blast
  from a h0 b show ?thesis by blast
qed

section \<open>Properties of the chat coach\<close>

text \<open>
  Claim C9. \<^const>\<open>get_response\<close> never lets an exception through: its result is always a
  reply string. A coach built without an API credential, and more generally one whose model
  is not ready, returns the fixed configuration-instructions message whatever the remote
  service would do, and its state (the list of prompts sent included) is unchanged, so the
  service is not contacted. When the remote call raises, the reply is the fixed error prefix
  followed by the exception's text; when it answers, the reply is the answer's text.
\<close>

theorem coach_fails_softly:
  "(\<exists>reply. fst (get_response send_message self user_message user_context) = Inr reply) \<and>
   (get_response send_message (initialize_model genai_start []) user_message user_context =
      (Inr not_configured_message, initialize_model genai_start [])) \<and>
   (\<not> model_ready self \<longrightarrow>
      get_response send_message self user_message user_context =
        (Inr not_configured_message, self)) \<and>
   (model_ready self \<and> send_message (full_prompt user_message user_context) = Inl e \<longrightarrow>
      fst (get_response send_message self user_message user_context) = Inr (error_prefix @ e)) \<and>
   (model_ready self \<and> send_message (full_prompt user_message user_context) = Inr text \<longrightarrow>
      fst (get_response send_message self user_message user_context) = Inr text)"
proof (intro conjI impI)
  show "\<exists>reply. fst (get_response send_message self user_message user_context) = Inr reply"
    by (cases "send_message (full_prompt user_message user_context)")
       (auto simp: get_response_def try_send_def Let_def)
next
  show "get_response send_message (initialize_model genai_start []) user_message user_context =
      (Inr not_configured_message, initialize_model genai_start [])"
    by (simp add: get_response_def initialize_model_def)
next
  assume "\<not> model_ready self"
  then show "get_response send_message self user_message user_context =
        (Inr not_configured_message, self)"
    by (simp add: get_response_def)
next
  assume "model_ready self \<and> send_message (full_prompt user_message user_context) = Inl e"
  then show "fst (get_response send_message self user_message user_context) = Inr (error_prefix @ e)"
    by (simp add: get_response_def try_send_def Let_def)
next
  assume "model_ready self \<and> send_message (full_prompt user_message user_context) = Inr text"
  then show "fst (get_response send_message self user_message user_context) = Inr text"
    by (simp add: get_response_def try_send_def Let_def)
qed

theorem coach_fails_softly_witness:
  "\<not> model_ready (initialize_model sample_start []) \<and>
   get_response sample_service (initialize_model sample_start []) ''hello'' None =
     (Inr not_configured_message, initialize_model sample_start []) \<and>
   sent (snd (get_response sample_service (initialize_model sample_start []) ''hello'' None)) = [] \<and>
   (model_ready (initialize_model sample_start ''key-123'') \<and>
      sample_service (full_prompt ''hello'' None) = Inl ''429 quota exceeded'') \<and>
   fst (get_response sample_service (initialize_model sample_start ''key-123'') ''hello'' None) =
     Inr (error_prefix @ ''429 quota exceeded'')"
proof -
  have h1: "\<not> model_ready (initialize_model sample_start [])"
    by (simp add: initialize_model_def)
  have h2: "model_ready (initialize_model sample_start ''key-123'') \<and>
      sample_service (full_prompt ''hello'' None) = Inl ''429 quota exceeded''"
    by (simp add: initialize_model_def sample_start_def sample_service_def)
  note i1 = coach_fails_softly[where send_message = sample_service
      and self = "initialize_model sample_start []" and user_message = "''hello''"
      and user_context = None]
  note i2 = coach_fails_softly[where send_message = sample_service
      and self = "initialize_model sample_start ''key-123''" and user_message = "''hello''"
      and user_context = None and e = "''429 quota exceeded''"]
  have a: "get_response sample_service (initialize_model sample_start []) ''hello'' None =
     (Inr not_configured_message, initialize_model sample_start [])"
    using i1 h1 by blast
  have b: "sent (snd (get_response sample_service (initialize_model sample_start []) ''hello'' None)) = []"
    unfolding a by (simp add: initialize_model_def)
  have c: "fst (get_response sample_service (initialize_model sample_start ''key-123'') ''hello'' None) =
     Inr (error_prefix @ ''429 quota exceeded'')"
    using i2 h2 by blast
  from h1 a b h2 c show ?thesis by blast
qed

end
